theory Spec2Isabelle
  imports Main "HOL-Library.Word"
begin

section \<open>The OIT resolve task of hdx (oitResolveTask.cpp)\<close>

text \<open>
  A shallow embedding of \<^verbatim>\<open>HdxOitResolveTask\<close>: its constructor and the member
  functions \<^verbatim>\<open>_PrepareOitBuffers\<close>, \<^verbatim>\<open>_PrepareAovBindings\<close>, \<^verbatim>\<open>Prepare\<close> and
  \<^verbatim>\<open>Execute\<close>. Member functions take the world (the task object, the task context, the
  render index and the diagnostics issued so far) and return the world after the call.
  The result is \<open>None\<close> where the C++ dereferences a null pointer.
\<close>

subsection \<open>Values\<close>

text \<open>
  A C++ \<^verbatim>\<open>int\<close> is a 32-bit word read in two's complement: comparisons are the signed
  ones, and \<open>*\<close> and \<open>+\<close> wrap around (signed overflow is undefined in C++; the
  model takes the two's complement result). An \<^verbatim>\<open>unsigned int\<close> converted to
  \<^verbatim>\<open>int\<close> keeps its bits.
\<close>

type_synonym cint = "32 word"

type_synonym GfVec2i = "cint \<times> cint"

datatype TfToken =
    oitRequestFlag | oitClearedFlag | aovBindings
  | oitCounterBufferBar | oitIndexBufferBar | oitDataBufferBar | oitDepthBufferBar
  | oitUniformBar
  | hdxOitCounterBuffer | hdxOitIndexBuffer | hdxOitDataBuffer | hdxOitDepthBuffer
  | oitScreenSize
  | oitCounter | oitIndices | oitData | oitDepth | oitUniforms
  | otherToken string

datatype HdType = HdTypeInt32 | HdTypeFloat | HdTypeFloatVec4 | HdTypeInt32Vec2

text \<open>\<^verbatim>\<open>HdBufferSpec(name, HdTupleType {type, count})\<close>\<close>

type_synonym HdBufferSpec = "TfToken \<times> HdType \<times> nat"

record HdRenderBuffer =
  rb_width :: cint
  rb_height :: cint

text \<open>
  A \<^verbatim>\<open>VtValue\<close> holds nothing, a bool, a \<^verbatim>\<open>GfVec2i\<close>, a shared pointer to a buffer
  array range (an address, or null), a vector of AOV bindings, or something this file
  never looks into. The \<^verbatim>\<open>renderBuffer\<close> of a binding is a raw pointer and may be null.
\<close>

datatype VtValue =
    VtEmpty
  | VtBool bool
  | VtVec2i cint cint
  | VtBar "nat option"
  | VtAovBindings "HdRenderPassAovBinding list"
  | VtOther nat
and HdRenderPassAovBinding =
    AovBinding (aovName: TfToken) (renderBuffer: "HdRenderBuffer option") (clearValue: VtValue)

type_synonym HdTaskContext = "TfToken \<rightharpoonup> VtValue"

subsection \<open>Buffer array ranges and the resource registry\<close>

record HdBufferArrayRange =
  bar_role :: TfToken
  bar_specs :: "HdBufferSpec list"
  bar_numElements :: cint

text \<open>
  The registry owns the buffer array ranges; a shared pointer to one is its address in
  \<open>bars\<close>. \<open>freshNumElements\<close> and \<open>freshUniformNumElements\<close> are the numbers
  of elements the registry gives a range it allocates: the allocators are not part of
  this file, so the numbers are parameters. \<open>sources\<close> are the buffer sources queued by
  \<^verbatim>\<open>AddSource\<close>.
\<close>

record HdStResourceRegistry =
  bars :: "nat \<Rightarrow> HdBufferArrayRange"
  nextBar :: nat
  freshNumElements :: cint
  freshUniformNumElements :: cint
  sources :: "(nat option \<times> TfToken \<times> VtValue) list"

text \<open>
  Modelled from the spec: \<^verbatim>\<open>HdStResourceRegistry::AllocateSingleBufferArrayRange\<close> and
  \<^verbatim>\<open>AllocateUniformBufferArrayRange\<close>, which are not in oitResolveTask.cpp. An
  allocation hands out a range at an address not handed out before, with the role and the
  specs asked for.
\<close>

definition AllocateSingleBufferArrayRange ::
  "TfToken \<Rightarrow> HdBufferSpec list \<Rightarrow> HdStResourceRegistry \<Rightarrow> nat \<times> HdStResourceRegistry" where
  "AllocateSingleBufferArrayRange role specs reg =
     (nextBar reg,
      reg\<lparr>bars := (bars reg)(nextBar reg :=
              \<lparr>bar_role = role, bar_specs = specs, bar_numElements = freshNumElements reg\<rparr>),
          nextBar := Suc (nextBar reg)\<rparr>)"

definition AllocateUniformBufferArrayRange ::
  "TfToken \<Rightarrow> HdBufferSpec list \<Rightarrow> HdStResourceRegistry \<Rightarrow> nat \<times> HdStResourceRegistry" where
  "AllocateUniformBufferArrayRange role specs reg =
     (nextBar reg,
      reg\<lparr>bars := (bars reg)(nextBar reg :=
              \<lparr>bar_role = role, bar_specs = specs, bar_numElements = freshUniformNumElements reg\<rparr>),
          nextBar := Suc (nextBar reg)\<rparr>)"

text \<open>
  Modelled from the spec: \<^verbatim>\<open>HdBufferArrayRange::Resize\<close>, which is not in
  oitResolveTask.cpp. After \<^verbatim>\<open>bar->Resize(numElements)\<close> the range has that number of
  elements; there is no result through a null pointer.
\<close>

definition Resize :: "nat option \<Rightarrow> cint \<Rightarrow> HdStResourceRegistry \<Rightarrow> HdStResourceRegistry option" where
  "Resize bar n reg =
     (case bar of
        None \<Rightarrow> None
      | Some a \<Rightarrow> Some (reg\<lparr>bars := (bars reg)(a := (bars reg a)\<lparr>bar_numElements := n\<rparr>)\<rparr>))"

text \<open>
  Modelled from the spec: \<^verbatim>\<open>HdStResourceRegistry::AddSource\<close>, which is not in
  oitResolveTask.cpp. The source is queued; the upload happens at the next resource flush.
\<close>

definition AddSource ::
  "nat option \<Rightarrow> TfToken \<times> VtValue \<Rightarrow> HdStResourceRegistry \<Rightarrow> HdStResourceRegistry" where
  "AddSource bar src reg = reg\<lparr>sources := sources reg @ [(bar, src)]\<rparr>"

record HdRenderIndex =
  renderDelegateIsHdSt :: bool
  resourceRegistry :: HdStResourceRegistry

subsection \<open>Render pass, render pass state and shader\<close>

datatype HdBlendOp =
  HdBlendOpAdd | HdBlendOpSubtract | HdBlendOpReverseSubtract | HdBlendOpMin | HdBlendOpMax

datatype HdBlendFactor =
    HdBlendFactorZero | HdBlendFactorOne
  | HdBlendFactorSrcColor | HdBlendFactorOneMinusSrcColor
  | HdBlendFactorDstColor | HdBlendFactorOneMinusDstColor
  | HdBlendFactorSrcAlpha | HdBlendFactorOneMinusSrcAlpha
  | HdBlendFactorDstAlpha | HdBlendFactorOneMinusDstAlpha

datatype ColorMask = ColorMaskNone | ColorMaskRGB | ColorMaskRGBA

record HdStRenderPassShader =
  sh_glslfx :: string
  sh_bufferBindings :: "(TfToken \<times> nat) list"

text \<open>
  The render pass state shares the task's shader object; the model keeps the shader in
  the task and records in \<open>rps_renderPassShader\<close> which shader the state points to.
\<close>

record HdStRenderPassState =
  depthTestEnabled :: bool
  depthMaskEnabled :: bool
  colorMasks :: "ColorMask list"
  blendEnabled :: bool
  blendColorOp :: HdBlendOp
  blendColorSrcFactor :: HdBlendFactor
  blendColorDstFactor :: HdBlendFactor
  blendAlphaOp :: HdBlendOp
  blendAlphaSrcFactor :: HdBlendFactor
  blendAlphaDstFactor :: HdBlendFactor
  rps_renderPassShader :: "string option"
  rps_aovBindings :: "HdRenderPassAovBinding list"

text \<open>
  Modelled from the spec: the setters of \<^verbatim>\<open>HdStRenderPassState\<close>, which are not in
  oitResolveTask.cpp. Each stores what it is given and leaves the other fields alone.
\<close>

definition SetEnableDepthTest :: "bool \<Rightarrow> HdStRenderPassState \<Rightarrow> HdStRenderPassState" where
  "SetEnableDepthTest b s = s\<lparr>depthTestEnabled := b\<rparr>"

definition SetEnableDepthMask :: "bool \<Rightarrow> HdStRenderPassState \<Rightarrow> HdStRenderPassState" where
  "SetEnableDepthMask b s = s\<lparr>depthMaskEnabled := b\<rparr>"

definition SetColorMasks :: "ColorMask list \<Rightarrow> HdStRenderPassState \<Rightarrow> HdStRenderPassState" where
  "SetColorMasks ms s = s\<lparr>colorMasks := ms\<rparr>"

definition SetBlendEnabled :: "bool \<Rightarrow> HdStRenderPassState \<Rightarrow> HdStRenderPassState" where
  "SetBlendEnabled b s = s\<lparr>blendEnabled := b\<rparr>"

definition SetBlend ::
  "HdBlendOp \<Rightarrow> HdBlendFactor \<Rightarrow> HdBlendFactor \<Rightarrow> HdBlendOp \<Rightarrow> HdBlendFactor \<Rightarrow> HdBlendFactor
   \<Rightarrow> HdStRenderPassState \<Rightarrow> HdStRenderPassState" where
  "SetBlend colorOp colorSrc colorDst alphaOp alphaSrc alphaDst s =
     s\<lparr>blendColorOp := colorOp, blendColorSrcFactor := colorSrc, blendColorDstFactor := colorDst,
       blendAlphaOp := alphaOp, blendAlphaSrcFactor := alphaSrc, blendAlphaDstFactor := alphaDst\<rparr>"

definition SetRenderPassShader :: "HdStRenderPassShader \<Rightarrow> HdStRenderPassState \<Rightarrow> HdStRenderPassState" where
  "SetRenderPassShader sh s = s\<lparr>rps_renderPassShader := Some (sh_glslfx sh)\<rparr>"

definition SetAovBindings ::
  "HdRenderPassAovBinding list \<Rightarrow> HdStRenderPassState \<Rightarrow> HdStRenderPassState" where
  "SetAovBindings bs s = s\<lparr>rps_aovBindings := bs\<rparr>"

text \<open>
  The image shader render pass: whether it was prepared, and the draws it has issued,
  each with the render pass state and the shader it was given.
\<close>

record HdSt_ImageShaderRenderPass =
  rp_prepared :: bool
  rp_draws :: "(HdStRenderPassState \<times> HdStRenderPassShader) list"

definition HdxPackageOitResolveImageShader :: string where
  "HdxPackageOitResolveImageShader = ''oitResolveImageShader.glslfx''"

subsection \<open>The task and the world\<close>

record HdxOitResolveTask =
  taskId :: string
  m_screenSize :: GfVec2i
  m_counterBar :: "nat option"
  m_indexBar :: "nat option"
  m_dataBar :: "nat option"
  m_depthBar :: "nat option"
  m_uniformBar :: "nat option"
  m_renderPass :: "HdSt_ImageShaderRenderPass option"
  m_renderPassState :: "HdStRenderPassState option"
  m_renderPassShader :: "HdStRenderPassShader option"

datatype TfDiagnostic = TF_CODING_ERROR string | TF_VERIFY_FAILED string | TF_WARN string

text \<open>
  \<open>w_newRenderPassState\<close> is the value of a default-constructed
  \<^verbatim>\<open>HdStRenderPassState\<close>; its constructor is not part of this file, so the value is a
  parameter.
\<close>

record world =
  w_task :: HdxOitResolveTask
  w_ctx :: HdTaskContext
  w_renderIndex :: HdRenderIndex
  w_newRenderPassState :: HdStRenderPassState
  w_diagnostics :: "TfDiagnostic list"

text \<open>The constructor: \<^verbatim>\<open>HdTask(id), _screenSize(0)\<close>, every pointer null.\<close>

definition HdxOitResolveTask_ctor :: "string \<Rightarrow> HdxOitResolveTask" where
  "HdxOitResolveTask_ctor ident =
     \<lparr>taskId = ident, m_screenSize = (0, 0),
      m_counterBar = None, m_indexBar = None, m_dataBar = None, m_depthBar = None,
      m_uniformBar = None,
      m_renderPass = None, m_renderPassState = None, m_renderPassShader = None\<rparr>"

definition report :: "TfDiagnostic \<Rightarrow> world \<Rightarrow> world" where
  "report d w = w\<lparr>w_diagnostics := w_diagnostics w @ [d]\<rparr>"

definition ctx_set :: "TfToken \<Rightarrow> VtValue \<Rightarrow> world \<Rightarrow> world" where
  "ctx_set k v w = w\<lparr>w_ctx := (w_ctx w)(k \<mapsto> v)\<rparr>"

definition ctx_erase :: "TfToken \<Rightarrow> world \<Rightarrow> world" where
  "ctx_erase k w = w\<lparr>w_ctx := (w_ctx w)(k := None)\<rparr>"

definition registry :: "world \<Rightarrow> HdStResourceRegistry" where
  "registry w = resourceRegistry (w_renderIndex w)"

definition set_registry :: "HdStResourceRegistry \<Rightarrow> world \<Rightarrow> world" where
  "set_registry reg w = w\<lparr>w_renderIndex := (w_renderIndex w)\<lparr>resourceRegistry := reg\<rparr>\<rparr>"

subsection \<open>\<^verbatim>\<open>_PrepareOitBuffers\<close>\<close>

definition numSamples :: cint where
  "numSamples = 8"

text \<open>Lines 87 to 147: the five ranges are allocated when \<^verbatim>\<open>_counterBar\<close> is null.\<close>

definition createOitBuffers :: "world \<Rightarrow> world" where
  "createOitBuffers w =
     (let (counterBar, r1) = AllocateSingleBufferArrayRange oitCounter
                               [(hdxOitCounterBuffer, HdTypeInt32, 1)] (registry w);
          (indexBar, r2) = AllocateSingleBufferArrayRange oitIndices
                               [(hdxOitIndexBuffer, HdTypeInt32, 1)] r1;
          (dataBar, r3) = AllocateSingleBufferArrayRange oitData
                               [(hdxOitDataBuffer, HdTypeFloatVec4, 1)] r2;
          (depthBar, r4) = AllocateSingleBufferArrayRange oitDepth
                               [(hdxOitDepthBuffer, HdTypeFloat, 1)] r3;
          (uniformBar, r5) = AllocateUniformBufferArrayRange oitUniforms
                               [(oitScreenSize, HdTypeInt32Vec2, 1)] r4
      in set_registry r5
           (w\<lparr>w_task := (w_task w)\<lparr>m_counterBar := Some counterBar, m_indexBar := Some indexBar,
                                    m_dataBar := Some dataBar, m_depthBar := Some depthBar,
                                    m_uniformBar := Some uniformBar\<rparr>\<rparr>))"

text \<open>Lines 149 to 154: the task context gets the five shared pointers.\<close>

definition publishOitBuffers :: "world \<Rightarrow> world" where
  "publishOitBuffers w =
     ctx_set oitUniformBar (VtBar (m_uniformBar (w_task w)))
       (ctx_set oitDepthBufferBar (VtBar (m_depthBar (w_task w)))
         (ctx_set oitDataBufferBar (VtBar (m_dataBar (w_task w)))
           (ctx_set oitIndexBufferBar (VtBar (m_indexBar (w_task w)))
             (ctx_set oitCounterBufferBar (VtBar (m_counterBar (w_task w))) w))))"

text \<open>Lines 163 to 178: the body of \<^verbatim>\<open>if (resizeOitBuffers)\<close>.\<close>

definition resizeOitBuffers :: "GfVec2i \<Rightarrow> world \<Rightarrow> world option" where
  "resizeOitBuffers screenSize w =
     (let t = (w_task w)\<lparr>m_screenSize := screenSize\<rparr>;
          newBufferSize = fst screenSize * snd screenSize
      in case Resize (m_counterBar t) (newBufferSize + 1) (registry w) of
           None \<Rightarrow> None
         | Some r1 \<Rightarrow>
        (case Resize (m_indexBar t) (newBufferSize * numSamples) r1 of
           None \<Rightarrow> None
         | Some r2 \<Rightarrow>
        (case Resize (m_dataBar t) (newBufferSize * numSamples) r2 of
           None \<Rightarrow> None
         | Some r3 \<Rightarrow>
        (case Resize (m_depthBar t) (newBufferSize * numSamples) r3 of
           None \<Rightarrow> None
         | Some r4 \<Rightarrow>
             Some (set_registry
                     (AddSource (m_uniformBar t)
                        (oitScreenSize, VtVec2i (fst screenSize) (snd screenSize)) r4)
                     (w\<lparr>w_task := t\<rparr>))))))"

definition PrepareOitBuffers :: "GfVec2i \<Rightarrow> world \<Rightarrow> world option" where
  "PrepareOitBuffers screenSize w =
     (if \<not> (0 \<le>s fst screenSize \<and> 0 \<le>s snd screenSize) then
        Some (report (TF_CODING_ERROR
                (''Invalid screen size for OIT resolve task '' @ taskId (w_task w))) w)
      else
        let w1 = (if m_counterBar (w_task w) = None then createOitBuffers w else w);
            w2 = publishOitBuffers w1
        in if fst (m_screenSize (w_task w2)) <s fst screenSize
              \<or> snd (m_screenSize (w_task w2)) <s snd screenSize
           then resizeOitBuffers screenSize w2
           else Some w2)"

text \<open>The world after lines 87 to 154.\<close>

definition published :: "world \<Rightarrow> world" where
  "published w =
     publishOitBuffers (if m_counterBar (w_task w) = None then createOitBuffers w else w)"

subsection \<open>\<^verbatim>\<open>_PrepareAovBindings\<close>\<close>

definition stripClearValue :: "HdRenderPassAovBinding \<Rightarrow> HdRenderPassAovBinding" where
  "stripClearValue b = AovBinding (aovName b) (renderBuffer b) VtEmpty"

text \<open>Lines 186 to 193: the AOV bindings in the task context, if it holds any.\<close>

definition ctxAovBindings :: "HdTaskContext \<Rightarrow> HdRenderPassAovBinding list" where
  "ctxAovBindings c =
     (case c aovBindings of
        Some (VtAovBindings bs) \<Rightarrow> bs
      | _ \<Rightarrow> [])"

definition PrepareAovBindings :: "world \<Rightarrow> world option" where
  "PrepareAovBindings w =
     (case m_renderPassState (w_task w) of
        None \<Rightarrow> None
      | Some rps \<Rightarrow>
          Some (w\<lparr>w_task := (w_task w)\<lparr>m_renderPassState :=
                    Some (SetAovBindings (map stripClearValue (ctxAovBindings (w_ctx w))) rps)\<rparr>\<rparr>))"

subsection \<open>\<^verbatim>\<open>Prepare\<close>\<close>

text \<open>Lines 228 to 259: the render pass, its state and the shader are made.\<close>

definition initRenderPass :: "world \<Rightarrow> world" where
  "initRenderPass w =
     (let renderPassShader = \<lparr>sh_glslfx = HdxPackageOitResolveImageShader, sh_bufferBindings = []\<rparr>;
          renderPassState =
            SetRenderPassShader renderPassShader
              (SetBlend HdBlendOpAdd HdBlendFactorOne HdBlendFactorOneMinusSrcAlpha
                        HdBlendOpAdd HdBlendFactorOne HdBlendFactorOneMinusSrcAlpha
                (SetBlendEnabled True
                  (SetColorMasks [ColorMaskRGBA]
                    (SetEnableDepthMask False
                      (SetEnableDepthTest False (w_newRenderPassState w))))))
      in w\<lparr>w_task := (w_task w)\<lparr>
              m_renderPass := Some \<lparr>rp_prepared = True, rp_draws = []\<rparr>,
              m_renderPassState := Some renderPassState,
              m_renderPassShader := Some renderPassShader\<rparr>\<rparr>)"

definition oitScreenSizeFallback :: cint where
  "oitScreenSizeFallback = 2048"

text \<open>
  Lines 268 to 284: the screen size \<^verbatim>\<open>Prepare\<close> computes, with the world after the
  warning it may issue.
\<close>

definition computeScreenSize :: "world \<Rightarrow> (GfVec2i \<times> world) option" where
  "computeScreenSize w =
     (case m_renderPassState (w_task w) of
        None \<Rightarrow> None
      | Some rps \<Rightarrow>
          (case rps_aovBindings rps of
             b # _ \<Rightarrow>
               (case renderBuffer b of
                  None \<Rightarrow> None
                | Some rb \<Rightarrow> Some ((rb_width rb, rb_height rb), w))
           | [] \<Rightarrow>
               Some ((oitScreenSizeFallback, oitScreenSizeFallback),
                     (if fst (m_screenSize (w_task w)) \<noteq> oitScreenSizeFallback
                      then report (TF_WARN ''Invalid AOVs for Oit Resolve Task'') w
                      else w))))"

text \<open>Lines 262 to 286, after the render pass exists.\<close>

definition prepareFrame :: "world \<Rightarrow> world option" where
  "prepareFrame w =
     (case PrepareAovBindings w of
        None \<Rightarrow> None
      | Some w1 \<Rightarrow>
          (case computeScreenSize w1 of
             None \<Rightarrow> None
           | Some (screenSize, w2) \<Rightarrow> PrepareOitBuffers screenSize w2))"

text \<open>
  The world in which a \<^verbatim>\<open>Prepare\<close> that goes on to its AOV bindings reaches line 265:
  the cleared flag erased, and the render pass made if there was none.
\<close>

definition beforeAovBindings :: "world \<Rightarrow> world" where
  "beforeAovBindings w =
     (let w1 = ctx_erase oitClearedFlag w
      in if m_renderPass (w_task w1) = None then initRenderPass w1 else w1)"

definition Prepare :: "world \<Rightarrow> world option" where
  "Prepare w =
     (if w_ctx w oitRequestFlag = None then Some w
      else
        let w1 = ctx_erase oitClearedFlag w
        in if m_renderPass (w_task w1) = None then
             (if \<not> renderDelegateIsHdSt (w_renderIndex w1) then
                Some (report (TF_VERIFY_FAILED ''OIT Task only works with HdSt'') w1)
              else prepareFrame (initRenderPass w1))
           else prepareFrame w1)"

subsection \<open>\<^verbatim>\<open>Execute\<close>\<close>

definition GetBar :: "HdTaskContext \<Rightarrow> TfToken \<Rightarrow> nat option" where
  "GetBar c k = (case c k of Some (VtBar (Some a)) \<Rightarrow> Some a | _ \<Rightarrow> None)"

text \<open>
  Modelled from the spec: \<^verbatim>\<open>HdxOitBufferAccessor::AddOitBufferBindings\<close>, defined in
  oitBufferAccessor.cpp. It binds the four OIT buffers (counter, index, data, depth) from
  the shared state to the compositing shader; when any buffer reference is absent it
  binds nothing and says so. It reads the task context and does not change it.
\<close>

definition AddOitBufferBindings ::
  "HdTaskContext \<Rightarrow> HdStRenderPassShader \<Rightarrow> bool \<times> HdStRenderPassShader" where
  "AddOitBufferBindings c sh =
     (case (GetBar c oitCounterBufferBar, GetBar c oitIndexBufferBar,
            GetBar c oitDataBufferBar, GetBar c oitDepthBufferBar) of
        (Some counterBar, Some indexBar, Some dataBar, Some depthBar) \<Rightarrow>
          (True, sh\<lparr>sh_bufferBindings := sh_bufferBindings sh @
                      [(oitCounterBufferBar, counterBar), (oitIndexBufferBar, indexBar),
                       (oitDataBufferBar, dataBar), (oitDepthBufferBar, depthBar)]\<rparr>)
      | _ \<Rightarrow> (False, sh))"

text \<open>
  Modelled from the spec: \<^verbatim>\<open>HdSt_ImageShaderRenderPass::Execute\<close>, which is not in
  oitResolveTask.cpp. \<^verbatim>\<open>_renderPass->Execute(_renderPassState, GetRenderTags())\<close> issues
  the full-screen draw with the render pass state it is given.
\<close>

definition RenderPass_Execute ::
  "HdStRenderPassState \<Rightarrow> HdStRenderPassShader \<Rightarrow> HdSt_ImageShaderRenderPass
   \<Rightarrow> HdSt_ImageShaderRenderPass" where
  "RenderPass_Execute rps sh rp = rp\<lparr>rp_draws := rp_draws rp @ [(rps, sh)]\<rparr>"

definition Execute :: "world \<Rightarrow> world option" where
  "Execute w =
     (if w_ctx w oitRequestFlag = None then Some w
      else
        let w1 = ctx_erase oitClearedFlag (ctx_erase oitRequestFlag w)
        in case m_renderPassState (w_task w1) of
             None \<Rightarrow> Some (report (TF_VERIFY_FAILED ''_renderPassState'') w1)
           | Some rps \<Rightarrow>
          (case m_renderPassShader (w_task w1) of
             None \<Rightarrow> Some (report (TF_VERIFY_FAILED ''_renderPassShader'') w1)
           | Some sh \<Rightarrow>
               let (ok, sh') = AddOitBufferBindings (w_ctx w1) sh;
                   w2 = w1\<lparr>w_task := (w_task w1)\<lparr>m_renderPassShader := Some sh'\<rparr>\<rparr>
               in if \<not> ok then
                    Some (report (TF_CODING_ERROR
                            ''No OIT buffers allocated but needed by OIT resolve task'') w2)
                  else
                    (case m_renderPass (w_task w2) of
                       None \<Rightarrow> None
                     | Some rp \<Rightarrow>
                         Some (w2\<lparr>w_task := (w_task w2)\<lparr>m_renderPass :=
                                   Some (RenderPass_Execute rps sh' rp)\<rparr>\<rparr>))))"

subsection \<open>Sequences of calls\<close>

text \<open>
  What happens to a task over time: the scheduler calls \<^verbatim>\<open>Prepare\<close> or \<^verbatim>\<open>Execute\<close>,
  or some other task rewrites the task context.
\<close>

datatype call = CallPrepare | CallExecute | CallOther "HdTaskContext \<Rightarrow> HdTaskContext"

fun step :: "call \<Rightarrow> world \<Rightarrow> world option" where
  "step CallPrepare w = Prepare w"
| "step CallExecute w = Execute w"
| "step (CallOther f) w = Some (w\<lparr>w_ctx := f (w_ctx w)\<rparr>)"

fun run :: "call list \<Rightarrow> world \<Rightarrow> world option" where
  "run [] w = Some w"
| "run (c # cs) w = (case step c w of None \<Rightarrow> None | Some w' \<Rightarrow> run cs w')"

subsection \<open>Invariants of the task\<close>

text \<open>
  The five ranges are allocated together, so once \<^verbatim>\<open>_counterBar\<close> is set none of them
  is null and the four list buffers are four different ranges.
\<close>

definition buffers_ok :: "HdxOitResolveTask \<Rightarrow> bool" where
  "buffers_ok t =
     (m_counterBar t = None \<or>
      (m_indexBar t \<noteq> None \<and> m_dataBar t \<noteq> None \<and> m_depthBar t \<noteq> None \<and>
       m_uniformBar t \<noteq> None \<and>
       distinct [m_counterBar t, m_indexBar t, m_dataBar t, m_depthBar t]))"

text \<open>The render pass, its state and the shader are made together.\<close>

definition pass_ok :: "HdxOitResolveTask \<Rightarrow> bool" where
  "pass_ok t =
     (if m_renderPass t = None
      then m_renderPassState t = None \<and> m_renderPassShader t = None
      else m_renderPassState t \<noteq> None \<and> m_renderPassShader t \<noteq> None)"

text \<open>
  What the comment above \<^verbatim>\<open>_PrepareAovBindings\<close> expects of the render setup task: the
  first AOV binding in the task context, when there is one, has its render buffer.
\<close>

definition aovBuffersResolved :: "HdTaskContext \<Rightarrow> bool" where
  "aovBuffersResolved c =
     (case ctxAovBindings c of
        b # _ \<Rightarrow> renderBuffer b \<noteq> None
      | [] \<Rightarrow> True)"

subsection \<open>Buffer lengths\<close>

definition numElements :: "world \<Rightarrow> nat option \<Rightarrow> cint option" where
  "numElements w bar = map_option (\<lambda>a. bar_numElements (bars (registry w) a)) bar"

text \<open>
  The lengths of the counter, index, data and depth buffers of the task, as integers;
  \<open>None\<close> before the buffers exist.
\<close>

fun lengths4 ::
  "cint option \<Rightarrow> cint option \<Rightarrow> cint option \<Rightarrow> cint option \<Rightarrow> (int \<times> int \<times> int \<times> int) option" where
  "lengths4 (Some c) (Some i) (Some d) (Some z) = Some (sint c, sint i, sint d, sint z)"
| "lengths4 _ _ _ _ = None"

definition bufferLengths :: "world \<Rightarrow> (int \<times> int \<times> int \<times> int) option" where
  "bufferLengths w =
     lengths4 (numElements w (m_counterBar (w_task w))) (numElements w (m_indexBar (w_task w)))
              (numElements w (m_dataBar (w_task w))) (numElements w (m_depthBar (w_task w)))"

text \<open>
  The lengths the specification gives for a screen size: \<open>width*height + 1\<close> for the
  counter buffer and \<open>width*height*numSamples\<close>, with 8 samples, for the other three.
\<close>

definition spec_bufferLengths :: "int \<Rightarrow> int \<Rightarrow> int \<times> int \<times> int \<times> int" where
  "spec_bufferLengths width height =
     (width * height + 1, width * height * 8, width * height * 8, width * height * 8)"

text \<open>
  The screen size the specification tracks after a resize: the component-wise maximum of
  the requested size and the size tracked before.
\<close>

definition spec_highWaterMark :: "GfVec2i \<Rightarrow> GfVec2i \<Rightarrow> GfVec2i" where
  "spec_highWaterMark requested tracked =
     (if fst tracked <s fst requested then fst requested else fst tracked,
      if snd tracked <s snd requested then snd requested else snd tracked)"

subsection \<open>Concrete worlds\<close>

definition bar0 :: HdBufferArrayRange where
  "bar0 = \<lparr>bar_role = otherToken [], bar_specs = [], bar_numElements = 0\<rparr>"

definition registry0 :: HdStResourceRegistry where
  "registry0 = \<lparr>bars = (\<lambda>_. bar0), nextBar = 0, freshNumElements = 0,
      freshUniformNumElements = 1, sources = []\<rparr>"

definition renderPassState0 :: HdStRenderPassState where
  "renderPassState0 =
     \<lparr>depthTestEnabled = True, depthMaskEnabled = True, colorMasks = [], blendEnabled = False,
      blendColorOp = HdBlendOpAdd, blendColorSrcFactor = HdBlendFactorOne,
      blendColorDstFactor = HdBlendFactorZero,
      blendAlphaOp = HdBlendOpAdd, blendAlphaSrcFactor = HdBlendFactorOne,
      blendAlphaDstFactor = HdBlendFactorZero,
      rps_renderPassShader = None, rps_aovBindings = []\<rparr>"

text \<open>
  A world with a newly constructed task: \<open>hdSt\<close> says whether the render delegate is
  an \<^verbatim>\<open>HdStRenderDelegate\<close>, \<open>c\<close> is the task context.
\<close>

definition world0 :: "bool \<Rightarrow> HdTaskContext \<Rightarrow> world" where
  "world0 hdSt c =
     \<lparr>w_task = HdxOitResolveTask_ctor ''/oitResolveTask'',
      w_ctx = c,
      w_renderIndex = \<lparr>renderDelegateIsHdSt = hdSt, resourceRegistry = registry0\<rparr>,
      w_newRenderPassState = renderPassState0,
      w_diagnostics = []\<rparr>"

definition requestCtx :: HdTaskContext where
  "requestCtx = [oitRequestFlag \<mapsto> VtBool True]"

text \<open>A task context with the request flag and one AOV binding of the given size.\<close>

definition aovCtx :: "cint \<Rightarrow> cint \<Rightarrow> HdTaskContext" where
  "aovCtx width height =
     [oitRequestFlag \<mapsto> VtBool True,
      aovBindings \<mapsto> VtAovBindings
        [AovBinding (otherToken ''color'')
           (Some \<lparr>rb_width = width, rb_height = height\<rparr>) (VtOther 0)]]"

section \<open>Properties\<close>

subsection \<open>Signed arithmetic without overflow\<close>

lemma sint_mul_nonneg:
  fixes a b :: cint
  assumes "0 \<le> sint a" "0 \<le> sint b" "sint a * sint b < 2 ^ 31"
  shows "sint (a * b) = sint a * sint b"
proof -
  have "0 \<le> sint a * sint b" using assms by simp
  then show ?thesis using assms(3)
    by (simp add: sint_word_ariths signed_take_bit_int_eq_self)
qed

lemma sint_counter:
  fixes a b :: cint
  assumes "0 \<le> sint a" "0 \<le> sint b" "sint a * sint b * 8 < 2 ^ 31"
  shows "sint (a * b + 1) = sint a * sint b + 1"
proof -
  have nn: "0 \<le> sint a * sint b" using assms by simp
  then have lt: "sint a * sint b + 1 < 2 ^ 31" using assms(3) by simp
  have "sint (a * b) = sint a * sint b"
    using assms nn by (intro sint_mul_nonneg) simp_all
  then show ?thesis using nn lt
    by (simp add: sint_word_ariths signed_take_bit_int_eq_self)
qed

lemma sint_list:
  fixes a b :: cint
  assumes "0 \<le> sint a" "0 \<le> sint b" "sint a * sint b * 8 < 2 ^ 31"
  shows "sint (a * b * numSamples) = sint a * sint b * 8"
proof -
  have nn: "0 \<le> sint a * sint b" using assms by simp
  have "sint (a * b) = sint a * sint b"
    using assms nn by (intro sint_mul_nonneg) simp_all
  then show ?thesis using nn assms(3)
    by (simp add: numSamples_def sint_word_ariths signed_take_bit_int_eq_self)
qed

subsection \<open>\<^verbatim>\<open>_PrepareOitBuffers\<close>, step by step\<close>

lemmas world_defs = report_def ctx_set_def ctx_erase_def registry_def set_registry_def

lemma createOitBuffers_task:
  "w_task (createOitBuffers w) =
     (w_task w)\<lparr>m_counterBar := Some (nextBar (registry w)),
               m_indexBar := Some (Suc (nextBar (registry w))),
               m_dataBar := Some (Suc (Suc (nextBar (registry w)))),
               m_depthBar := Some (Suc (Suc (Suc (nextBar (registry w))))),
               m_uniformBar := Some (Suc (Suc (Suc (Suc (nextBar (registry w))))))\<rparr>"
  by (simp add: createOitBuffers_def AllocateSingleBufferArrayRange_def
      AllocateUniformBufferArrayRange_def world_defs)

lemma createOitBuffers_frame:
  "w_ctx (createOitBuffers w) = w_ctx w"
  "w_diagnostics (createOitBuffers w) = w_diagnostics w"
  "w_newRenderPassState (createOitBuffers w) = w_newRenderPassState w"
  "renderDelegateIsHdSt (w_renderIndex (createOitBuffers w)) = renderDelegateIsHdSt (w_renderIndex w)"
  "sources (registry (createOitBuffers w)) = sources (registry w)"
  "freshNumElements (registry (createOitBuffers w)) = freshNumElements (registry w)"
  by (simp_all add: createOitBuffers_def AllocateSingleBufferArrayRange_def
      AllocateUniformBufferArrayRange_def world_defs)

lemma createOitBuffers_ok: "buffers_ok (w_task (createOitBuffers w))"
  by (simp add: createOitBuffers_task buffers_ok_def)

lemma publishOitBuffers_frame:
  "w_task (publishOitBuffers w) = w_task w"
  "w_renderIndex (publishOitBuffers w) = w_renderIndex w"
  "w_diagnostics (publishOitBuffers w) = w_diagnostics w"
  "w_newRenderPassState (publishOitBuffers w) = w_newRenderPassState w"
  "registry (publishOitBuffers w) = registry w"
  by (simp_all add: publishOitBuffers_def world_defs)

lemma publishOitBuffers_ctx:
  "w_ctx (publishOitBuffers w) =
     (w_ctx w)(oitCounterBufferBar \<mapsto> VtBar (m_counterBar (w_task w)),
               oitIndexBufferBar \<mapsto> VtBar (m_indexBar (w_task w)),
               oitDataBufferBar \<mapsto> VtBar (m_dataBar (w_task w)),
               oitDepthBufferBar \<mapsto> VtBar (m_depthBar (w_task w)),
               oitUniformBar \<mapsto> VtBar (m_uniformBar (w_task w)))"
  by (simp add: publishOitBuffers_def world_defs)

lemma resizeOitBuffers_result:
  assumes "m_counterBar (w_task w) = Some c" "m_indexBar (w_task w) = Some i"
    "m_dataBar (w_task w) = Some d" "m_depthBar (w_task w) = Some z"
    "distinct [c, i, d, z]"
  shows "\<exists>w'. resizeOitBuffers s w = Some w' \<and>
     w_task w' = (w_task w)\<lparr>m_screenSize := s\<rparr> \<and>
     w_ctx w' = w_ctx w \<and> w_diagnostics w' = w_diagnostics w \<and>
     w_newRenderPassState w' = w_newRenderPassState w \<and>
     renderDelegateIsHdSt (w_renderIndex w') = renderDelegateIsHdSt (w_renderIndex w) \<and>
     freshNumElements (registry w') = freshNumElements (registry w) \<and>
     bar_numElements (bars (registry w') c) = fst s * snd s + 1 \<and>
     bar_numElements (bars (registry w') i) = fst s * snd s * numSamples \<and>
     bar_numElements (bars (registry w') d) = fst s * snd s * numSamples \<and>
     bar_numElements (bars (registry w') z) = fst s * snd s * numSamples \<and>
     sources (registry w') =
       sources (registry w) @ [(m_uniformBar (w_task w), oitScreenSize, VtVec2i (fst s) (snd s))]"
  using assms
  by (simp add: resizeOitBuffers_def Resize_def AddSource_def world_defs Let_def)

lemma PrepareOitBuffers_invalid:
  assumes "\<not> (0 \<le>s fst s \<and> 0 \<le>s snd s)"
  shows "PrepareOitBuffers s w =
     Some (report (TF_CODING_ERROR
             (''Invalid screen size for OIT resolve task '' @ taskId (w_task w))) w)"
  using assms by (simp add: PrepareOitBuffers_def)

lemma published_ok:
  assumes "buffers_ok (w_task w)"
  shows "buffers_ok (w_task (published w))" "m_counterBar (w_task (published w)) \<noteq> None"
  using assms
  by (simp_all add: published_def publishOitBuffers_frame createOitBuffers_task buffers_ok_def)

lemma published_frame:
  "m_screenSize (w_task (published w)) = m_screenSize (w_task w)"
  "m_renderPass (w_task (published w)) = m_renderPass (w_task w)"
  "m_renderPassState (w_task (published w)) = m_renderPassState (w_task w)"
  "m_renderPassShader (w_task (published w)) = m_renderPassShader (w_task w)"
  "taskId (w_task (published w)) = taskId (w_task w)"
  "w_diagnostics (published w) = w_diagnostics w"
  "w_newRenderPassState (published w) = w_newRenderPassState w"
  "renderDelegateIsHdSt (w_renderIndex (published w)) = renderDelegateIsHdSt (w_renderIndex w)"
  "sources (registry (published w)) = sources (registry w)"
  "freshNumElements (registry (published w)) = freshNumElements (registry w)"
  by (simp_all add: published_def publishOitBuffers_frame createOitBuffers_frame
      createOitBuffers_task)

lemma published_kept:
  assumes "m_counterBar (w_task w) \<noteq> None"
  shows "w_task (published w) = w_task w" "registry (published w) = registry w"
  using assms by (auto simp: published_def publishOitBuffers_frame)

lemma published_ctx:
  "w_ctx (published w) oitCounterBufferBar = Some (VtBar (m_counterBar (w_task (published w))))"
  "w_ctx (published w) oitIndexBufferBar = Some (VtBar (m_indexBar (w_task (published w))))"
  "w_ctx (published w) oitDataBufferBar = Some (VtBar (m_dataBar (w_task (published w))))"
  "w_ctx (published w) oitDepthBufferBar = Some (VtBar (m_depthBar (w_task (published w))))"
  "w_ctx (published w) oitUniformBar = Some (VtBar (m_uniformBar (w_task (published w))))"
  by (simp_all add: published_def publishOitBuffers_frame publishOitBuffers_ctx)

lemma published_ctx_other:
  assumes "k \<notin> {oitCounterBufferBar, oitIndexBufferBar, oitDataBufferBar, oitDepthBufferBar,
                 oitUniformBar}"
  shows "w_ctx (published w) k = w_ctx w k"
  using assms
  by (simp add: published_def publishOitBuffers_ctx createOitBuffers_frame)

lemma PrepareOitBuffers_valid:
  assumes "0 \<le>s fst s" "0 \<le>s snd s"
  shows "PrepareOitBuffers s w =
     (if fst (m_screenSize (w_task w)) <s fst s \<or> snd (m_screenSize (w_task w)) <s snd s
      then resizeOitBuffers s (published w) else Some (published w))"
  using assms
  by (simp add: PrepareOitBuffers_def published_def Let_def publishOitBuffers_frame
      createOitBuffers_task)

lemma buffers_okE:
  assumes "buffers_ok t" "m_counterBar t \<noteq> None"
  obtains c i d z where "m_counterBar t = Some c" "m_indexBar t = Some i"
    "m_dataBar t = Some d" "m_depthBar t = Some z" "distinct [c, i, d, z]"
    "m_uniformBar t \<noteq> None"
  using assms by (auto simp: buffers_ok_def)

lemma PrepareOitBuffers_resized:
  assumes ok: "buffers_ok (w_task w)" and valid: "0 \<le>s fst s" "0 \<le>s snd s"
    and grow: "fst (m_screenSize (w_task w)) <s fst s \<or> snd (m_screenSize (w_task w)) <s snd s"
  shows "\<exists>w'. PrepareOitBuffers s w = Some w' \<and>
     w_task w' = (w_task (published w))\<lparr>m_screenSize := s\<rparr> \<and>
     w_ctx w' = w_ctx (published w) \<and>
     w_diagnostics w' = w_diagnostics w \<and>
     w_newRenderPassState w' = w_newRenderPassState w \<and>
     renderDelegateIsHdSt (w_renderIndex w') = renderDelegateIsHdSt (w_renderIndex w) \<and>
     freshNumElements (registry w') = freshNumElements (registry w) \<and>
     numElements w' (m_counterBar (w_task w')) = Some (fst s * snd s + 1) \<and>
     numElements w' (m_indexBar (w_task w')) = Some (fst s * snd s * numSamples) \<and>
     numElements w' (m_dataBar (w_task w')) = Some (fst s * snd s * numSamples) \<and>
     numElements w' (m_depthBar (w_task w')) = Some (fst s * snd s * numSamples) \<and>
     sources (registry w') =
       sources (registry w) @ [(m_uniformBar (w_task w'), oitScreenSize, VtVec2i (fst s) (snd s))]"
proof -
  from published_ok [OF ok] obtain c i d z where
    bars: "m_counterBar (w_task (published w)) = Some c" "m_indexBar (w_task (published w)) = Some i"
      "m_dataBar (w_task (published w)) = Some d" "m_depthBar (w_task (published w)) = Some z"
      "distinct [c, i, d, z]"
    by (rule buffers_okE)
  from resizeOitBuffers_result [OF bars, of s] obtain w' where
    w': "resizeOitBuffers s (published w) = Some w'"
      "w_task w' = (w_task (published w))\<lparr>m_screenSize := s\<rparr>"
      "w_ctx w' = w_ctx (published w)" "w_diagnostics w' = w_diagnostics (published w)"
      "w_newRenderPassState w' = w_newRenderPassState (published w)"
      "renderDelegateIsHdSt (w_renderIndex w') = renderDelegateIsHdSt (w_renderIndex (published w))"
      "freshNumElements (registry w') = freshNumElements (registry (published w))"
      "bar_numElements (bars (registry w') c) = fst s * snd s + 1"
      "bar_numElements (bars (registry w') i) = fst s * snd s * numSamples"
      "bar_numElements (bars (registry w') d) = fst s * snd s * numSamples"
      "bar_numElements (bars (registry w') z) = fst s * snd s * numSamples"
      "sources (registry w') = sources (registry (published w)) @
         [(m_uniformBar (w_task (published w)), oitScreenSize, VtVec2i (fst s) (snd s))]"
    by blast
  have "PrepareOitBuffers s w = Some w'"
    using valid grow w'(1) by (simp add: PrepareOitBuffers_valid)
  then show ?thesis
    using w' bars by (simp add: published_frame numElements_def)
qed

lemma PrepareOitBuffers_kept:
  assumes valid: "0 \<le>s fst s" "0 \<le>s snd s"
    and keep: "\<not> (fst (m_screenSize (w_task w)) <s fst s \<or> snd (m_screenSize (w_task w)) <s snd s)"
  shows "PrepareOitBuffers s w = Some (published w)"
  using assms by (simp add: PrepareOitBuffers_valid)

lemma numElements_cong:
  assumes "registry w' = registry w"
  shows "numElements w' bar = numElements w bar"
  using assms by (simp add: numElements_def)

lemma bufferLengths_cong:
  assumes "w_task w' = w_task w" "registry w' = registry w"
  shows "bufferLengths w' = bufferLengths w"
  by (simp add: bufferLengths_def assms(1) numElements_cong [OF assms(2)])

lemma bufferLengths_published:
  assumes "m_counterBar (w_task w) \<noteq> None"
  shows "bufferLengths (published w) = bufferLengths w"
  using assms by (intro bufferLengths_cong published_kept)

lemma bufferLengths_spec:
  assumes "numElements w (m_counterBar (w_task w)) = Some (wd * ht + 1)"
    "numElements w (m_indexBar (w_task w)) = Some (wd * ht * numSamples)"
    "numElements w (m_dataBar (w_task w)) = Some (wd * ht * numSamples)"
    "numElements w (m_depthBar (w_task w)) = Some (wd * ht * numSamples)"
    "0 \<le>s wd" "0 \<le>s ht" "sint wd * sint ht * 8 < 2 ^ 31"
  shows "bufferLengths w = Some (spec_bufferLengths (sint wd) (sint ht))"
proof -
  have nn: "0 \<le> sint wd" "0 \<le> sint ht"
    using assms(5,6) by (simp_all add: word_sle_eq)
  show ?thesis
    using assms(1-4)
    by (simp add: bufferLengths_def spec_bufferLengths_def
        sint_counter [OF nn assms(7)] sint_list [OF nn assms(7)])
qed

text \<open>Unfolding everything, to run the code on a concrete world.\<close>

lemmas eval_defs =
  PrepareOitBuffers_def createOitBuffers_def publishOitBuffers_def resizeOitBuffers_def
  AllocateSingleBufferArrayRange_def AllocateUniformBufferArrayRange_def Resize_def
  AddSource_def report_def ctx_set_def ctx_erase_def registry_def set_registry_def
  world0_def registry0_def bar0_def HdxOitResolveTask_ctor_def numSamples_def
  bufferLengths_def numElements_def spec_bufferLengths_def Let_def
  word_sle_eq word_sless_alt

subsection \<open>Two calls in a row\<close>

lemma fresh_task_ok: "buffers_ok (HdxOitResolveTask_ctor ident)"
  by (simp add: buffers_ok_def HdxOitResolveTask_ctor_def)

lemma buffers_ok_screenSize: "buffers_ok (t\<lparr>m_screenSize := s\<rparr>) = buffers_ok t"
  by (simp add: buffers_ok_def)

text \<open>Growing to a size, then asking for a size that is not larger: the lengths stay.\<close>

lemma PrepareOitBuffers_grow:
  assumes ok: "buffers_ok (w_task w)" and valid: "0 \<le>s wd" "0 \<le>s ht"
    and grow: "fst (m_screenSize (w_task w)) <s wd \<or> snd (m_screenSize (w_task w)) <s ht"
    and fits: "sint wd * sint ht * 8 < 2 ^ 31"
  shows "\<exists>w'. PrepareOitBuffers (wd, ht) w = Some w' \<and> buffers_ok (w_task w') \<and>
     m_counterBar (w_task w') \<noteq> None \<and> m_screenSize (w_task w') = (wd, ht) \<and>
     bufferLengths w' = Some (spec_bufferLengths (sint wd) (sint ht))"
proof -
  from PrepareOitBuffers_resized [of w "(wd, ht)"] ok valid grow obtain w' where
    w': "PrepareOitBuffers (wd, ht) w = Some w'"
      "w_task w' = (w_task (published w))\<lparr>m_screenSize := (wd, ht)\<rparr>"
      "numElements w' (m_counterBar (w_task w')) = Some (wd * ht + 1)"
      "numElements w' (m_indexBar (w_task w')) = Some (wd * ht * numSamples)"
      "numElements w' (m_dataBar (w_task w')) = Some (wd * ht * numSamples)"
      "numElements w' (m_depthBar (w_task w')) = Some (wd * ht * numSamples)"
    by auto
  have "bufferLengths w' = Some (spec_bufferLengths (sint wd) (sint ht))"
    by (rule bufferLengths_spec [OF w'(3-6) valid fits])
  moreover have "buffers_ok (w_task w')" "m_counterBar (w_task w') \<noteq> None"
    using published_ok [OF ok] by (simp_all add: w'(2) buffers_ok_screenSize)
  ultimately show ?thesis using w'(1,2) by simp
qed

lemma PrepareOitBuffers_keep:
  assumes valid: "0 \<le>s wd" "0 \<le>s ht"
    and keep: "wd \<le>s fst (m_screenSize (w_task w))" "ht \<le>s snd (m_screenSize (w_task w))"
    and bars: "m_counterBar (w_task w) \<noteq> None"
  shows "\<exists>w'. PrepareOitBuffers (wd, ht) w = Some w' \<and> w_task w' = w_task w \<and>
     bufferLengths w' = bufferLengths w"
proof -
  have "\<not> (fst (m_screenSize (w_task w)) <s fst (wd, ht) \<or>
            snd (m_screenSize (w_task w)) <s snd (wd, ht))"
    using keep by (simp add: word_sle_eq word_sless_alt)
  with valid have "PrepareOitBuffers (wd, ht) w = Some (published w)"
    by (intro PrepareOitBuffers_kept) simp_all
  then show ?thesis
    using bars by (simp add: published_kept bufferLengths_published)
qed

lemma PrepareOitBuffers_first:
  assumes ok: "buffers_ok (w_task w)" and valid: "0 \<le>s wd" "0 \<le>s ht"
  shows "\<exists>w'. PrepareOitBuffers (wd, ht) w = Some w' \<and> buffers_ok (w_task w') \<and>
     (m_screenSize (w_task w') = (wd, ht) \<or> m_screenSize (w_task w') = m_screenSize (w_task w))"
proof (cases "fst (m_screenSize (w_task w)) <s wd \<or> snd (m_screenSize (w_task w)) <s ht")
  case True
  from PrepareOitBuffers_resized [of w "(wd, ht)"] ok valid True obtain w' where
    w': "PrepareOitBuffers (wd, ht) w = Some w'"
      "w_task w' = (w_task (published w))\<lparr>m_screenSize := (wd, ht)\<rparr>"
    by auto
  then show ?thesis
    using published_ok [OF ok] by (simp add: buffers_ok_screenSize)
next
  case False
  with valid have "PrepareOitBuffers (wd, ht) w = Some (published w)"
    by (intro PrepareOitBuffers_kept) simp_all
  then show ?thesis
    using published_ok [OF ok] by (simp add: published_frame)
qed

subsection \<open>\<^verbatim>\<open>Prepare\<close>, step by step\<close>

lemma PrepareOitBuffers_frame:
  assumes ok: "buffers_ok (w_task w)"
  shows "\<exists>w'. PrepareOitBuffers s w = Some w' \<and> buffers_ok (w_task w') \<and>
     m_renderPass (w_task w') = m_renderPass (w_task w) \<and>
     m_renderPassState (w_task w') = m_renderPassState (w_task w) \<and>
     m_renderPassShader (w_task w') = m_renderPassShader (w_task w) \<and>
     renderDelegateIsHdSt (w_renderIndex w') = renderDelegateIsHdSt (w_renderIndex w) \<and>
     w_newRenderPassState w' = w_newRenderPassState w \<and>
     w_ctx w' oitRequestFlag = w_ctx w oitRequestFlag \<and>
     w_ctx w' oitClearedFlag = w_ctx w oitClearedFlag \<and>
     w_ctx w' aovBindings = w_ctx w aovBindings \<and>
     w_diagnostics w' = w_diagnostics w @
       (if 0 \<le>s fst s \<and> 0 \<le>s snd s then []
        else [TF_CODING_ERROR (''Invalid screen size for OIT resolve task '' @ taskId (w_task w))]) \<and>
     m_screenSize (w_task w') =
       (if 0 \<le>s fst s \<and> 0 \<le>s snd s \<and>
           (fst (m_screenSize (w_task w)) <s fst s \<or> snd (m_screenSize (w_task w)) <s snd s)
        then s else m_screenSize (w_task w))"
proof (cases "0 \<le>s fst s \<and> 0 \<le>s snd s")
  case False
  from PrepareOitBuffers_invalid [OF False, of w] show ?thesis
    using ok False by (auto simp: report_def)
next
  case valid: True
  show ?thesis
  proof (cases "fst (m_screenSize (w_task w)) <s fst s \<or> snd (m_screenSize (w_task w)) <s snd s")
    case True
    from PrepareOitBuffers_resized [OF ok _ _ True] valid obtain w' where
      w': "PrepareOitBuffers s w = Some w'"
        "w_task w' = (w_task (published w))\<lparr>m_screenSize := s\<rparr>"
        "w_ctx w' = w_ctx (published w)" "w_diagnostics w' = w_diagnostics w"
        "w_newRenderPassState w' = w_newRenderPassState w"
        "renderDelegateIsHdSt (w_renderIndex w') = renderDelegateIsHdSt (w_renderIndex w)"
      by auto
    show ?thesis
      using w' valid True published_ok [OF ok]
      by (simp add: published_frame published_ctx_other buffers_ok_screenSize)
  next
    case False
    with valid have "PrepareOitBuffers s w = Some (published w)"
      by (simp add: PrepareOitBuffers_valid)
    then show ?thesis
      using valid False published_ok [OF ok]
      by (simp add: published_frame published_ctx_other)
  qed
qed

lemma PrepareAovBindings_Some:
  assumes "m_renderPassState (w_task w) = Some rps"
  shows "PrepareAovBindings w =
     Some (w\<lparr>w_task := (w_task w)\<lparr>m_renderPassState :=
        Some (SetAovBindings (map stripClearValue (ctxAovBindings (w_ctx w))) rps)\<rparr>\<rparr>)"
  using assms by (simp add: PrepareAovBindings_def)

text \<open>The world in which \<^verbatim>\<open>Prepare\<close> computes the screen size (line 268).\<close>

lemma prepareFrame_fallback:
  assumes rps: "m_renderPassState (w_task w) = Some rps"
    and noAov: "ctxAovBindings (w_ctx w) = []"
  shows "\<exists>w1. PrepareAovBindings w = Some w1 \<and>
     computeScreenSize w1 =
       Some ((2048, 2048),
             if fst (m_screenSize (w_task w)) \<noteq> 2048
             then report (TF_WARN ''Invalid AOVs for Oit Resolve Task'') w1 else w1) \<and>
     prepareFrame w =
       PrepareOitBuffers (2048, 2048)
         (if fst (m_screenSize (w_task w)) \<noteq> 2048
          then report (TF_WARN ''Invalid AOVs for Oit Resolve Task'') w1 else w1) \<and>
     w_task w1 = (w_task w)\<lparr>m_renderPassState := Some (SetAovBindings [] rps)\<rparr> \<and>
     w_ctx w1 = w_ctx w \<and> w_renderIndex w1 = w_renderIndex w \<and>
     w_newRenderPassState w1 = w_newRenderPassState w \<and>
     w_diagnostics w1 = w_diagnostics w"
  by (simp add: prepareFrame_def PrepareAovBindings_Some [OF rps] noAov computeScreenSize_def
        SetAovBindings_def oitScreenSizeFallback_def)

lemma prepareFrame_result:
  assumes rps: "m_renderPassState (w_task w) = Some rps"
    and ok: "buffers_ok (w_task w)"
    and aov: "aovBuffersResolved (w_ctx w)"
  shows "\<exists>w'. prepareFrame w = Some w' \<and> buffers_ok (w_task w') \<and>
     m_renderPass (w_task w') = m_renderPass (w_task w) \<and>
     m_renderPassState (w_task w') =
       Some (SetAovBindings (map stripClearValue (ctxAovBindings (w_ctx w))) rps) \<and>
     m_renderPassShader (w_task w') = m_renderPassShader (w_task w) \<and>
     w_ctx w' oitRequestFlag = w_ctx w oitRequestFlag \<and>
     w_ctx w' oitClearedFlag = w_ctx w oitClearedFlag \<and>
     w_ctx w' aovBindings = w_ctx w aovBindings"
proof -
  let ?bs = "map stripClearValue (ctxAovBindings (w_ctx w))"
  let ?w1 = "w\<lparr>w_task := (w_task w)\<lparr>m_renderPassState := Some (SetAovBindings ?bs rps)\<rparr>\<rparr>"
  have w1: "PrepareAovBindings w = Some ?w1"
    by (rule PrepareAovBindings_Some [OF rps])
  have ok1: "buffers_ok (w_task ?w1)"
    using ok by (simp add: buffers_ok_def)
  have "\<exists>s w2. computeScreenSize ?w1 = Some (s, w2) \<and> w_task w2 = w_task ?w1 \<and>
          w_ctx w2 = w_ctx w \<and> w_renderIndex w2 = w_renderIndex w"
  proof (cases "ctxAovBindings (w_ctx w)")
    case Nil
    then show ?thesis
      by (simp add: computeScreenSize_def SetAovBindings_def report_def)
  next
    case (Cons b bs)
    with aov obtain rb where "renderBuffer b = Some rb"
      by (auto simp: aovBuffersResolved_def)
    with Cons show ?thesis
      by (simp add: computeScreenSize_def SetAovBindings_def stripClearValue_def)
  qed
  then obtain s w2 where
    w2: "computeScreenSize ?w1 = Some (s, w2)" "w_task w2 = w_task ?w1"
      "w_ctx w2 = w_ctx w" "w_renderIndex w2 = w_renderIndex w"
    by blast
  from PrepareOitBuffers_frame [of w2 s] ok1 w2(2) obtain w' where
    w': "PrepareOitBuffers s w2 = Some w'" "buffers_ok (w_task w')"
      "m_renderPass (w_task w') = m_renderPass (w_task w2)"
      "m_renderPassState (w_task w') = m_renderPassState (w_task w2)"
      "m_renderPassShader (w_task w') = m_renderPassShader (w_task w2)"
      "w_ctx w' oitRequestFlag = w_ctx w2 oitRequestFlag"
      "w_ctx w' oitClearedFlag = w_ctx w2 oitClearedFlag"
      "w_ctx w' aovBindings = w_ctx w2 aovBindings"
    by auto
  have "prepareFrame w = Some w'"
    by (simp add: prepareFrame_def w1 w2(1) w'(1))
  then show ?thesis
    using w' w2 by simp
qed

lemma initRenderPass_task:
  "m_renderPass (w_task (initRenderPass w)) = Some \<lparr>rp_prepared = True, rp_draws = []\<rparr>"
  "m_renderPassShader (w_task (initRenderPass w)) =
     Some \<lparr>sh_glslfx = HdxPackageOitResolveImageShader, sh_bufferBindings = []\<rparr>"
  "m_screenSize (w_task (initRenderPass w)) = m_screenSize (w_task w)"
  "buffers_ok (w_task (initRenderPass w)) = buffers_ok (w_task w)"
  "w_ctx (initRenderPass w) = w_ctx w"
  "w_renderIndex (initRenderPass w) = w_renderIndex w"
  "w_diagnostics (initRenderPass w) = w_diagnostics w"
  by (simp_all add: initRenderPass_def Let_def buffers_ok_def)

lemma initRenderPass_state:
  "\<exists>rps. m_renderPassState (w_task (initRenderPass w)) = Some rps \<and>
     \<not> depthTestEnabled rps \<and> \<not> depthMaskEnabled rps \<and> colorMasks rps = [ColorMaskRGBA] \<and>
     blendEnabled rps \<and>
     blendColorOp rps = HdBlendOpAdd \<and> blendColorSrcFactor rps = HdBlendFactorOne \<and>
     blendColorDstFactor rps = HdBlendFactorOneMinusSrcAlpha \<and>
     blendAlphaOp rps = HdBlendOpAdd \<and> blendAlphaSrcFactor rps = HdBlendFactorOne \<and>
     blendAlphaDstFactor rps = HdBlendFactorOneMinusSrcAlpha \<and>
     rps_renderPassShader rps = Some HdxPackageOitResolveImageShader"
  by (simp add: initRenderPass_def Let_def SetRenderPassShader_def SetBlend_def
      SetBlendEnabled_def SetColorMasks_def SetEnableDepthMask_def SetEnableDepthTest_def)

lemma ctx_erase_frame:
  "w_task (ctx_erase k w) = w_task w"
  "w_renderIndex (ctx_erase k w) = w_renderIndex w"
  "w_diagnostics (ctx_erase k w) = w_diagnostics w"
  "w_newRenderPassState (ctx_erase k w) = w_newRenderPassState w"
  "w_ctx (ctx_erase k w) k = None"
  "k' \<noteq> k \<Longrightarrow> w_ctx (ctx_erase k w) k' = w_ctx w k'"
  by (simp_all add: ctx_erase_def)

lemma ctxAovBindings_erase [simp]:
  "ctxAovBindings (w_ctx (ctx_erase oitClearedFlag w)) = ctxAovBindings (w_ctx w)"
  by (simp add: ctxAovBindings_def ctx_erase_def)

lemma aovBuffersResolved_erase [simp]:
  "aovBuffersResolved (w_ctx (ctx_erase oitClearedFlag w)) = aovBuffersResolved (w_ctx w)"
  by (simp add: aovBuffersResolved_def)

lemma Prepare_no_request:
  assumes "w_ctx w oitRequestFlag = None"
  shows "Prepare w = Some w"
  using assms by (simp add: Prepare_def)

lemma Prepare_not_HdSt:
  assumes "w_ctx w oitRequestFlag \<noteq> None" "m_renderPass (w_task w) = None"
    "\<not> renderDelegateIsHdSt (w_renderIndex w)"
  shows "Prepare w =
     Some (report (TF_VERIFY_FAILED ''OIT Task only works with HdSt'')
             (ctx_erase oitClearedFlag w))"
  using assms by (auto simp: Prepare_def Let_def ctx_erase_frame)

lemma Prepare_first:
  assumes "w_ctx w oitRequestFlag \<noteq> None" "m_renderPass (w_task w) = None"
    "renderDelegateIsHdSt (w_renderIndex w)"
  shows "Prepare w = prepareFrame (initRenderPass (ctx_erase oitClearedFlag w))"
  using assms by (auto simp: Prepare_def Let_def ctx_erase_frame)

lemma Prepare_later:
  assumes "w_ctx w oitRequestFlag \<noteq> None" "m_renderPass (w_task w) \<noteq> None"
  shows "Prepare w = prepareFrame (ctx_erase oitClearedFlag w)"
  using assms by (auto simp: Prepare_def Let_def ctx_erase_frame)

lemmas eval_prepare_defs =
  Prepare_def prepareFrame_def PrepareAovBindings_def computeScreenSize_def initRenderPass_def
  ctxAovBindings_def stripClearValue_def oitScreenSizeFallback_def
  SetRenderPassShader_def SetBlend_def SetBlendEnabled_def SetColorMasks_def
  SetEnableDepthMask_def SetEnableDepthTest_def SetAovBindings_def
  HdxPackageOitResolveImageShader_def renderPassState0_def requestCtx_def aovCtx_def

subsection \<open>\<^verbatim>\<open>Execute\<close>, step by step\<close>

lemma Execute_no_request:
  assumes "w_ctx w oitRequestFlag = None"
  shows "Execute w = Some w"
  using assms by (simp add: Execute_def)

text \<open>The world after lines 298 to 304, when the request flag was set.\<close>

lemma erased_frame:
  "w_task (ctx_erase oitClearedFlag (ctx_erase oitRequestFlag w)) = w_task w"
  "w_renderIndex (ctx_erase oitClearedFlag (ctx_erase oitRequestFlag w)) = w_renderIndex w"
  "w_diagnostics (ctx_erase oitClearedFlag (ctx_erase oitRequestFlag w)) = w_diagnostics w"
  "w_ctx (ctx_erase oitClearedFlag (ctx_erase oitRequestFlag w)) oitRequestFlag = None"
  "w_ctx (ctx_erase oitClearedFlag (ctx_erase oitRequestFlag w)) oitClearedFlag = None"
  "k \<noteq> oitRequestFlag \<Longrightarrow> k \<noteq> oitClearedFlag \<Longrightarrow>
     w_ctx (ctx_erase oitClearedFlag (ctx_erase oitRequestFlag w)) k = w_ctx w k"
  by (simp_all add: ctx_erase_def)

lemma GetBar_erased:
  assumes "k \<noteq> oitRequestFlag" "k \<noteq> oitClearedFlag"
  shows "GetBar (w_ctx (ctx_erase oitClearedFlag (ctx_erase oitRequestFlag w))) k =
         GetBar (w_ctx w) k"
  using assms by (simp add: GetBar_def erased_frame)

lemma AddOitBufferBindings_absent:
  assumes "GetBar c oitCounterBufferBar = None \<or> GetBar c oitIndexBufferBar = None \<or>
           GetBar c oitDataBufferBar = None \<or> GetBar c oitDepthBufferBar = None"
  shows "AddOitBufferBindings c sh = (False, sh)"
  using assms by (auto simp: AddOitBufferBindings_def split: option.splits)

lemma Execute_requested:
  assumes "w_ctx w oitRequestFlag \<noteq> None"
  shows "Execute w =
     (let w1 = ctx_erase oitClearedFlag (ctx_erase oitRequestFlag w)
      in case m_renderPassState (w_task w) of
           None \<Rightarrow> Some (report (TF_VERIFY_FAILED ''_renderPassState'') w1)
         | Some rps \<Rightarrow>
        (case m_renderPassShader (w_task w) of
           None \<Rightarrow> Some (report (TF_VERIFY_FAILED ''_renderPassShader'') w1)
         | Some sh \<Rightarrow>
             let (ok, sh') = AddOitBufferBindings (w_ctx w1) sh;
                 w2 = w1\<lparr>w_task := (w_task w)\<lparr>m_renderPassShader := Some sh'\<rparr>\<rparr>
             in if \<not> ok then
                  Some (report (TF_CODING_ERROR
                          ''No OIT buffers allocated but needed by OIT resolve task'') w2)
                else
                  (case m_renderPass (w_task w) of
                     None \<Rightarrow> None
                   | Some rp \<Rightarrow>
                       Some (w2\<lparr>w_task := (w_task w2)\<lparr>m_renderPass :=
                                 Some (RenderPass_Execute rps sh' rp)\<rparr>\<rparr>))))"
  using assms
  by (auto simp: Execute_def Let_def erased_frame split: option.splits prod.splits)

text \<open>Every way out of \<^verbatim>\<open>Execute\<close> after line 304 leaves the task context as line 304 did.\<close>

lemma Execute_requested_ctx:
  assumes req: "w_ctx w oitRequestFlag \<noteq> None" and ex: "Execute w = Some w'"
  shows "w_ctx w' = w_ctx (ctx_erase oitClearedFlag (ctx_erase oitRequestFlag w))"
  using ex unfolding Execute_requested [OF req]
  by (auto simp: Let_def report_def split: option.splits prod.splits if_splits)

lemma Execute_returns:
  assumes "pass_ok (w_task w)"
  shows "\<exists>w'. Execute w = Some w'"
proof (cases "w_ctx w oitRequestFlag = None")
  case True
  then show ?thesis by (simp add: Execute_no_request)
next
  case False
  show ?thesis
    using assms unfolding Execute_requested [OF False]
    by (auto simp: Let_def pass_ok_def split: option.splits prod.splits if_splits)
qed

lemmas eval_execute_defs =
  Execute_def AddOitBufferBindings_def GetBar_def RenderPass_Execute_def

subsection \<open>An unsupported render delegate\<close>

text \<open>A stage that could not be initialized: no call changes the task or the render index.\<close>

lemma Prepare_uninitialized:
  assumes "\<not> renderDelegateIsHdSt (w_renderIndex w)" "m_renderPass (w_task w) = None"
  shows "Prepare w =
     Some (if w_ctx w oitRequestFlag = None then w
           else report (TF_VERIFY_FAILED ''OIT Task only works with HdSt'')
                  (ctx_erase oitClearedFlag w))"
  using assms by (simp add: Prepare_no_request Prepare_not_HdSt)

lemma Execute_uninitialized:
  assumes "m_renderPassState (w_task w) = None"
  shows "Execute w =
     Some (if w_ctx w oitRequestFlag = None then w
           else report (TF_VERIFY_FAILED ''_renderPassState'')
                  (ctx_erase oitClearedFlag (ctx_erase oitRequestFlag w)))"
proof (cases "w_ctx w oitRequestFlag = None")
  case True
  then show ?thesis by (simp add: Execute_no_request)
next
  case False
  show ?thesis
    unfolding Execute_requested [OF False] using assms False by (auto simp: Let_def)
qed

lemma step_uninitialized:
  assumes "\<not> renderDelegateIsHdSt (w_renderIndex w)" "m_renderPass (w_task w) = None"
    "m_renderPassState (w_task w) = None"
  shows "\<exists>w'. step c w = Some w' \<and> w_task w' = w_task w \<and> w_renderIndex w' = w_renderIndex w"
proof (cases c)
  case CallPrepare
  then show ?thesis
    using assms by (simp add: Prepare_uninitialized report_def ctx_erase_def)
next
  case CallExecute
  then show ?thesis
    using assms by (simp add: Execute_uninitialized report_def ctx_erase_def)
next
  case (CallOther f)
  then show ?thesis by simp
qed

lemma run_uninitialized:
  assumes "\<not> renderDelegateIsHdSt (w_renderIndex w)" "m_renderPass (w_task w) = None"
    "m_renderPassState (w_task w) = None"
  shows "\<exists>w'. run cs w = Some w' \<and> w_task w' = w_task w \<and> w_renderIndex w' = w_renderIndex w"
  using assms
proof (induction cs arbitrary: w)
  case Nil
  then show ?case by simp
next
  case (Cons c cs)
  from step_uninitialized [OF Cons.prems, of c] obtain w1 where
    w1: "step c w = Some w1" "w_task w1 = w_task w" "w_renderIndex w1 = w_renderIndex w"
    by blast
  from Cons.IH [of w1] Cons.prems w1 obtain w' where
    "run cs w1 = Some w'" "w_task w' = w_task w1" "w_renderIndex w' = w_renderIndex w1"
    by auto
  with w1 show ?case by simp
qed

subsection \<open>The fallback screen size\<close>

lemma pass_ok_cases:
  assumes "pass_ok t"
  obtains (uninit) "m_renderPass t = None" "m_renderPassState t = None" "m_renderPassShader t = None"
  | (ready) rp rps sh where "m_renderPass t = Some rp" "m_renderPassState t = Some rps"
      "m_renderPassShader t = Some sh"
  using assms by (auto simp: pass_ok_def split: if_splits)

lemma ctxAovBindings_cong:
  assumes "c' aovBindings = c aovBindings"
  shows "ctxAovBindings c' = ctxAovBindings c"
  using assms by (simp add: ctxAovBindings_def)

lemma beforeAovBindings_first:
  assumes "m_renderPass (w_task w) = None"
  shows "beforeAovBindings w = initRenderPass (ctx_erase oitClearedFlag w)"
  using assms by (simp add: beforeAovBindings_def Let_def ctx_erase_frame)

lemma beforeAovBindings_later:
  assumes "m_renderPass (w_task w) \<noteq> None"
  shows "beforeAovBindings w = ctx_erase oitClearedFlag w"
  using assms by (auto simp: beforeAovBindings_def Let_def ctx_erase_frame)

text \<open>
  The world in which \<^verbatim>\<open>Prepare\<close> calls \<^verbatim>\<open>_PrepareAovBindings\<close> (line 265), when it gets
  that far.
\<close>

lemma Prepare_no_aov:
  assumes req: "w_ctx w oitRequestFlag \<noteq> None"
    and noAov: "ctxAovBindings (w_ctx w) = []"
    and init: "m_renderPass (w_task w) \<noteq> None \<or> renderDelegateIsHdSt (w_renderIndex w)"
    and pass: "pass_ok (w_task w)" and ok: "buffers_ok (w_task w)"
  shows "\<exists>w1 w'.
     PrepareAovBindings (beforeAovBindings w) = Some w1 \<and>
     computeScreenSize w1 =
       Some ((2048, 2048),
             if fst (m_screenSize (w_task w)) \<noteq> 2048
             then report (TF_WARN ''Invalid AOVs for Oit Resolve Task'') w1 else w1) \<and>
     Prepare w =
       PrepareOitBuffers (2048, 2048)
         (if fst (m_screenSize (w_task w)) \<noteq> 2048
          then report (TF_WARN ''Invalid AOVs for Oit Resolve Task'') w1 else w1) \<and>
     Prepare w = Some w' \<and>
     w_diagnostics w' = w_diagnostics w @
       (if fst (m_screenSize (w_task w)) \<noteq> 2048
        then [TF_WARN ''Invalid AOVs for Oit Resolve Task''] else []) \<and>
     m_screenSize (w_task w') =
       (if fst (m_screenSize (w_task w)) <s 2048 \<or> snd (m_screenSize (w_task w)) <s 2048
        then (2048, 2048) else m_screenSize (w_task w)) \<and>
     w_ctx w' oitRequestFlag \<noteq> None \<and> ctxAovBindings (w_ctx w') = [] \<and>
     m_renderPass (w_task w') \<noteq> None \<and> pass_ok (w_task w') \<and> buffers_ok (w_task w')"
proof -
  let ?w0 = "beforeAovBindings w"
  let ?warn = "TF_WARN ''Invalid AOVs for Oit Resolve Task''"
  have prep: "Prepare w = prepareFrame ?w0"
    using req init
    by (cases "m_renderPass (w_task w) = None")
      (simp_all add: Prepare_first Prepare_later beforeAovBindings_first beforeAovBindings_later)
  have frame0: "m_screenSize (w_task ?w0) = m_screenSize (w_task w)"
    "w_diagnostics ?w0 = w_diagnostics w" "buffers_ok (w_task ?w0)"
    "ctxAovBindings (w_ctx ?w0) = []" "w_ctx ?w0 oitRequestFlag = w_ctx w oitRequestFlag"
    using ok noAov
    by (cases "m_renderPass (w_task w) = None";
        simp add: beforeAovBindings_first beforeAovBindings_later initRenderPass_task
          ctx_erase_frame)+
  have "\<exists>rp rps sh. m_renderPass (w_task ?w0) = Some rp \<and>
          m_renderPassState (w_task ?w0) = Some rps \<and> m_renderPassShader (w_task ?w0) = Some sh"
  proof (cases "m_renderPass (w_task w) = None")
    case True
    from initRenderPass_state [of "ctx_erase oitClearedFlag w"] show ?thesis
      using True by (auto simp: beforeAovBindings_first initRenderPass_task)
  next
    case False
    with pass show ?thesis
      by (cases rule: pass_ok_cases) (simp_all add: beforeAovBindings_later ctx_erase_frame)
  qed
  then obtain rp rps sh where
    ready: "m_renderPass (w_task ?w0) = Some rp" "m_renderPassState (w_task ?w0) = Some rps"
      "m_renderPassShader (w_task ?w0) = Some sh"
    by blast
  from prepareFrame_fallback [OF ready(2) frame0(4)] obtain w1 where
    w1: "PrepareAovBindings ?w0 = Some w1"
      "computeScreenSize w1 =
         Some ((2048, 2048), if fst (m_screenSize (w_task w)) \<noteq> 2048 then report ?warn w1 else w1)"
      "prepareFrame ?w0 =
         PrepareOitBuffers (2048, 2048)
           (if fst (m_screenSize (w_task w)) \<noteq> 2048 then report ?warn w1 else w1)"
      "w_task w1 = (w_task ?w0)\<lparr>m_renderPassState := Some (SetAovBindings [] rps)\<rparr>"
      "w_ctx w1 = w_ctx ?w0" "w_diagnostics w1 = w_diagnostics ?w0"
    unfolding frame0(1) by blast
  let ?w2 = "if fst (m_screenSize (w_task w)) \<noteq> 2048 then report ?warn w1 else w1"
  have w2: "w_task ?w2 = w_task w1" "w_ctx ?w2 = w_ctx w1"
    "w_diagnostics ?w2 = w_diagnostics w @
       (if fst (m_screenSize (w_task w)) \<noteq> 2048 then [?warn] else [])"
    by (simp_all add: report_def w1(6) frame0(2))
  have ok2: "buffers_ok (w_task ?w2)"
    using frame0(3) unfolding w2(1) w1(4) by (simp add: buffers_ok_def)
  from PrepareOitBuffers_frame [OF ok2, of "(2048, 2048)"] obtain w' where
    w': "PrepareOitBuffers (2048, 2048) ?w2 = Some w'" "buffers_ok (w_task w')"
      "m_renderPass (w_task w') = m_renderPass (w_task ?w2)"
      "m_renderPassState (w_task w') = m_renderPassState (w_task ?w2)"
      "m_renderPassShader (w_task w') = m_renderPassShader (w_task ?w2)"
      "w_ctx w' oitRequestFlag = w_ctx ?w2 oitRequestFlag"
      "w_ctx w' aovBindings = w_ctx ?w2 aovBindings"
      "w_diagnostics w' = w_diagnostics ?w2 @
         (if 0 \<le>s fst (2048 :: cint, 2048 :: cint) \<and> 0 \<le>s snd (2048 :: cint, 2048 :: cint) then []
          else [TF_CODING_ERROR (''Invalid screen size for OIT resolve task '' @ taskId (w_task ?w2))])"
      "m_screenSize (w_task w') =
         (if 0 \<le>s fst (2048 :: cint, 2048 :: cint) \<and> 0 \<le>s snd (2048 :: cint, 2048 :: cint) \<and>
             (fst (m_screenSize (w_task ?w2)) <s fst (2048 :: cint, 2048 :: cint) \<or>
              snd (m_screenSize (w_task ?w2)) <s snd (2048 :: cint, 2048 :: cint))
          then (2048, 2048) else m_screenSize (w_task ?w2))"
    by blast
  have valid: "(0 :: cint) \<le>s 2048"
    by (simp add: word_sle_eq)
  have size2: "m_screenSize (w_task ?w2) = m_screenSize (w_task w)"
    unfolding w2(1) w1(4) by (simp add: frame0(1))
  have pass': "m_renderPass (w_task w') \<noteq> None" "pass_ok (w_task w')"
    unfolding pass_ok_def w'(3,4,5) w2(1) w1(4) using ready by simp_all
  have ctx': "w_ctx w' oitRequestFlag \<noteq> None" "ctxAovBindings (w_ctx w') = []"
  proof -
    show "w_ctx w' oitRequestFlag \<noteq> None"
      using req by (simp add: w'(6) w2(2) w1(5) frame0(5))
    have "ctxAovBindings (w_ctx w') = ctxAovBindings (w_ctx ?w0)"
      by (rule ctxAovBindings_cong) (simp add: w'(7) w2(2) w1(5))
    then show "ctxAovBindings (w_ctx w') = []" by (simp add: frame0(4))
  qed
  have diag': "w_diagnostics w' = w_diagnostics w @
      (if fst (m_screenSize (w_task w)) \<noteq> 2048 then [?warn] else [])"
    unfolding w'(8) w2(3) using valid by simp
  have size': "m_screenSize (w_task w') =
      (if fst (m_screenSize (w_task w)) <s 2048 \<or> snd (m_screenSize (w_task w)) <s 2048
       then (2048, 2048) else m_screenSize (w_task w))"
    unfolding w'(9) size2 using valid by simp
  have "Prepare w = PrepareOitBuffers (2048, 2048) ?w2"
    unfolding prep by (rule w1(3))
  moreover from this have "Prepare w = Some w'"
    by (simp only: w'(1))
  ultimately show ?thesis
    using w1(1,2) diag' size' ctx' pass' w'(2) by blast
qed

subsection \<open>The invariants hold in every reachable world\<close>

lemma prepareFrame_inv:
  assumes run: "prepareFrame w = Some w'"
    and ok: "buffers_ok (w_task w)" and pass: "pass_ok (w_task w)"
  shows "buffers_ok (w_task w') \<and> pass_ok (w_task w')"
proof -
  from run obtain w1 s w2 where
    w1: "PrepareAovBindings w = Some w1" and w2: "computeScreenSize w1 = Some (s, w2)"
    and w': "PrepareOitBuffers s w2 = Some w'"
    by (auto simp: prepareFrame_def split: option.splits)
  from w1 obtain rps where
    t1: "w_task w1 = (w_task w)\<lparr>m_renderPassState := Some rps\<rparr>"
      "m_renderPassState (w_task w) \<noteq> None"
    by (auto simp: PrepareAovBindings_def split: option.splits)
  from w2 have t2: "w_task w2 = w_task w1"
    by (auto simp: computeScreenSize_def report_def split: option.splits list.splits if_splits)
  have ok2: "buffers_ok (w_task w2)"
    using ok by (simp add: t2 t1 buffers_ok_def)
  from PrepareOitBuffers_frame [OF ok2, of s] w' have
    "buffers_ok (w_task w')" "m_renderPass (w_task w') = m_renderPass (w_task w2)"
    "m_renderPassState (w_task w') = m_renderPassState (w_task w2)"
    "m_renderPassShader (w_task w') = m_renderPassShader (w_task w2)"
    by auto
  then show ?thesis
    using pass t1(2) by (auto simp: t2 t1 pass_ok_def split: if_splits)
qed

lemma Prepare_inv:
  assumes run: "Prepare w = Some w'"
    and ok: "buffers_ok (w_task w)" and pass: "pass_ok (w_task w)"
  shows "buffers_ok (w_task w') \<and> pass_ok (w_task w')"
proof (cases "w_ctx w oitRequestFlag = None")
  case True
  with run ok pass show ?thesis by (simp add: Prepare_no_request)
next
  case req: False
  show ?thesis
  proof (cases "m_renderPass (w_task w) = None")
    case False
    with run req have "prepareFrame (ctx_erase oitClearedFlag w) = Some w'"
      by (simp add: Prepare_later)
    from prepareFrame_inv [OF this] ok pass show ?thesis
      by (simp add: ctx_erase_frame)
  next
    case first: True
    show ?thesis
    proof (cases "renderDelegateIsHdSt (w_renderIndex w)")
      case False
      with run req first ok pass show ?thesis
        by (auto simp: Prepare_not_HdSt report_def ctx_erase_def)
    next
      case True
      let ?w0 = "initRenderPass (ctx_erase oitClearedFlag w)"
      from run req first True have frame: "prepareFrame ?w0 = Some w'"
        by (simp add: Prepare_first)
      from initRenderPass_state [of "ctx_erase oitClearedFlag w"]
      have "pass_ok (w_task ?w0)"
        by (auto simp: pass_ok_def initRenderPass_task)
      moreover have "buffers_ok (w_task ?w0)"
        using ok by (simp add: initRenderPass_task ctx_erase_frame)
      ultimately show ?thesis
        using prepareFrame_inv [OF frame] by blast
    qed
  qed
qed

lemma Execute_inv:
  assumes run: "Execute w = Some w'"
    and ok: "buffers_ok (w_task w)" and pass: "pass_ok (w_task w)"
  shows "buffers_ok (w_task w') \<and> pass_ok (w_task w')"
proof (cases "w_ctx w oitRequestFlag = None")
  case True
  with run ok pass show ?thesis by (simp add: Execute_no_request)
next
  case False
  show ?thesis
    using run ok pass unfolding Execute_requested [OF False]
    by (auto simp: Let_def report_def ctx_erase_def buffers_ok_def pass_ok_def
        split: option.splits prod.splits if_splits)
qed

lemma step_inv:
  assumes "step c w = Some w'" "buffers_ok (w_task w)" "pass_ok (w_task w)"
  shows "buffers_ok (w_task w') \<and> pass_ok (w_task w')"
  using assms by (cases c) (auto dest: Prepare_inv Execute_inv)

text \<open>
  Every world reached from a newly constructed task by calls of \<^verbatim>\<open>Prepare\<close> and
  \<^verbatim>\<open>Execute\<close> satisfies \<open>buffers_ok\<close> and \<open>pass_ok\<close>.
\<close>

lemma run_inv:
  assumes "run cs w = Some w'" "buffers_ok (w_task w)" "pass_ok (w_task w)"
  shows "buffers_ok (w_task w') \<and> pass_ok (w_task w')"
  using assms
proof (induction cs arbitrary: w)
  case Nil
  then show ?case by simp
next
  case (Cons c cs)
  from Cons.prems(1) obtain w1 where
    w1: "step c w = Some w1" "run cs w1 = Some w'"
    by (auto split: option.splits)
  from step_inv [OF w1(1) Cons.prems(2,3)] Cons.IH [OF w1(2)] show ?case by blast
qed

lemma fresh_task_pass_ok: "pass_ok (HdxOitResolveTask_ctor ident)"
  by (simp add: pass_ok_def HdxOitResolveTask_ctor_def)

lemma reachable_ok:
  assumes "w_task w = HdxOitResolveTask_ctor ident" "run cs w = Some w'"
  shows "buffers_ok (w_task w') \<and> pass_ok (w_task w')"
  using run_inv [OF assms(2)] by (simp add: assms(1) fresh_task_ok fresh_task_pass_ok)

section \<open>The claims\<close>

subsection \<open>C1: buffer lengths after a resize\<close>

text \<open>
  Claim C1, as amended. The task's buffers are as \<^verbatim>\<open>_PrepareOitBuffers\<close> leaves them
  (\<open>buffers_ok\<close>). A call with a screen size \<open>(wd, ht)\<close> that is not negative and
  exceeds the tracked size in width or in height returns, and after it the counter buffer
  has \<open>wd*ht + 1\<close> elements and the index, data and depth buffers have \<open>wd*ht*8\<close>
  each, provided \<open>wd*ht*8\<close> is below \<open>2^31\<close>, so that the 32-bit products are the
  integer ones.
\<close>

theorem PrepareOitBuffers_resize_lengths:
  assumes "buffers_ok (w_task w)"
    and "0 \<le>s wd" "0 \<le>s ht"
    and "fst (m_screenSize (w_task w)) <s wd \<or> snd (m_screenSize (w_task w)) <s ht"
    and "sint wd * sint ht * 8 < 2 ^ 31"
  shows "\<exists>w'. PrepareOitBuffers (wd, ht) w = Some w' \<and>
              bufferLengths w' = Some (spec_bufferLengths (sint wd) (sint ht))"
proof -
  from PrepareOitBuffers_resized [of w "(wd, ht)"] assms(1-4) obtain w' where
    w': "PrepareOitBuffers (wd, ht) w = Some w'"
      "numElements w' (m_counterBar (w_task w')) = Some (wd * ht + 1)"
      "numElements w' (m_indexBar (w_task w')) = Some (wd * ht * numSamples)"
      "numElements w' (m_dataBar (w_task w')) = Some (wd * ht * numSamples)"
      "numElements w' (m_depthBar (w_task w')) = Some (wd * ht * numSamples)"
    by auto
  from bufferLengths_spec [OF w'(2-5) assms(2,3,5)] w'(1) show ?thesis by simp
qed

text \<open>Screen size (100, 50) on a new task: 5001 and 40000 elements.\<close>

theorem PrepareOitBuffers_resize_lengths_witness:
  "buffers_ok (w_task (world0 True Map.empty)) \<and>
   (0 :: cint) \<le>s 100 \<and> (0 :: cint) \<le>s 50 \<and>
   (fst (m_screenSize (w_task (world0 True Map.empty))) <s 100 \<or>
    snd (m_screenSize (w_task (world0 True Map.empty))) <s 50) \<and>
   sint (100 :: cint) * sint (50 :: cint) * 8 < 2 ^ 31 \<and>
   map_option bufferLengths (PrepareOitBuffers (100, 50) (world0 True Map.empty)) =
     Some (Some (5001, 40000, 40000, 40000))"
  using PrepareOitBuffers_resize_lengths [of "world0 True Map.empty" 100 50]
  by (auto simp: world0_def HdxOitResolveTask_ctor_def buffers_ok_def spec_bufferLengths_def
      word_sle_eq word_sless_alt)

text \<open>
  Without the bound the lengths are not the integer products: for (16384, 16384) the
  product \<open>16384*16384*8\<close> is \<open>2^31\<close>, which no \<^verbatim>\<open>int\<close> holds; the index, data
  and depth buffers are resized to the wrapped value.
\<close>

theorem PrepareOitBuffers_resize_lengths_counterexample:
  "map_option bufferLengths (PrepareOitBuffers (16384, 16384) (world0 True Map.empty)) =
     Some (Some (268435457, - 2147483648, - 2147483648, - 2147483648)) \<and>
   spec_bufferLengths 16384 16384 = (268435457, 2147483648, 2147483648, 2147483648)"
  by (simp add: eval_defs)

subsection \<open>C2: the flags after \<^verbatim>\<open>Execute\<close>\<close>

text \<open>
  Claim C2, as amended. On a task whose render pass, render pass state and shader were
  made together (\<open>pass_ok\<close>), every \<^verbatim>\<open>Execute\<close> returns, and after it the request
  flag is absent from the task context. When the request flag was present, the cleared
  flag is absent as well, whether or not the draw was issued; when the request flag was
  absent, \<^verbatim>\<open>Execute\<close> changes nothing, so the cleared flag stays as it was.
\<close>

theorem Execute_flags:
  assumes "pass_ok (w_task w)"
  shows "\<exists>w'. Execute w = Some w' \<and> w_ctx w' oitRequestFlag = None \<and>
     (if w_ctx w oitRequestFlag = None then w' = w else w_ctx w' oitClearedFlag = None)"
proof -
  from Execute_returns [OF assms] obtain w' where w': "Execute w = Some w'" ..
  show ?thesis
  proof (cases "w_ctx w oitRequestFlag = None")
    case True
    with w' show ?thesis by (simp add: Execute_no_request)
  next
    case False
    from Execute_requested_ctx [OF False w'] False w' show ?thesis
      by (auto simp: erased_frame)
  qed
qed

text \<open>Both flags set, on a new task: both are gone after \<^verbatim>\<open>Execute\<close>.\<close>

theorem Execute_flags_witness:
  "pass_ok (w_task (world0 True [oitRequestFlag \<mapsto> VtBool True, oitClearedFlag \<mapsto> VtBool True])) \<and>
   map_option (\<lambda>w. (w_ctx w oitRequestFlag, w_ctx w oitClearedFlag))
     (Execute (world0 True [oitRequestFlag \<mapsto> VtBool True, oitClearedFlag \<mapsto> VtBool True])) =
   Some (None, None)"
  using Execute_flags [of "world0 True [oitRequestFlag \<mapsto> VtBool True, oitClearedFlag \<mapsto> VtBool True]"]
  by (auto simp: world0_def pass_ok_def HdxOitResolveTask_ctor_def)

text \<open>
  The cleared flag set and the request flag absent: \<^verbatim>\<open>Execute\<close> returns at line 299
  and the cleared flag is still there.
\<close>

theorem Execute_flags_counterexample:
  "map_option (\<lambda>w. (w_ctx w oitRequestFlag, w_ctx w oitClearedFlag))
     (Execute (world0 True [oitClearedFlag \<mapsto> VtBool True])) =
   Some (None, Some (VtBool True))"
  by (simp add: eval_defs eval_execute_defs)

subsection \<open>C3: two sizes, one not larger than the other\<close>

text \<open>
  Claim C3, as amended. On a newly constructed task, let \<open>(w1, h1)\<close> and \<open>(w2, h2)\<close> be
  screen sizes that are not negative, with \<open>w1 \<le> w2\<close> and \<open>h1 \<le> h2\<close>, where
  \<open>(w2, h2)\<close> is not \<open>(0, 0)\<close> and \<open>w2*h2*8\<close> is below \<open>2^31\<close>. Preparing the buffers
  with \<open>(w1, h1)\<close> and then \<open>(w2, h2)\<close> gives the lengths the specification computes
  from \<open>(w2, h2)\<close>, and so does preparing with \<open>(w2, h2)\<close> and then \<open>(w1, h1)\<close>.
\<close>

theorem PrepareOitBuffers_never_shrinks:
  assumes fresh: "w_task w = HdxOitResolveTask_ctor ident"
    and s1: "0 \<le>s w1" "0 \<le>s h1"
    and le: "w1 \<le>s w2" "h1 \<le>s h2"
    and pos: "0 <s w2 \<or> 0 <s h2"
    and fits: "sint w2 * sint h2 * 8 < 2 ^ 31"
  shows "map_option bufferLengths
           (Option.bind (PrepareOitBuffers (w1, h1) w) (PrepareOitBuffers (w2, h2))) =
           Some (Some (spec_bufferLengths (sint w2) (sint h2))) \<and>
         map_option bufferLengths
           (Option.bind (PrepareOitBuffers (w2, h2) w) (PrepareOitBuffers (w1, h1))) =
           Some (Some (spec_bufferLengths (sint w2) (sint h2)))"
proof
  have ok: "buffers_ok (w_task w)" and zero: "m_screenSize (w_task w) = (0, 0)"
    by (simp_all add: fresh fresh_task_ok) (simp add: HdxOitResolveTask_ctor_def)
  have s2: "0 \<le>s w2" "0 \<le>s h2"
    using s1 le by (simp_all add: word_sle_eq)
  text \<open>The smaller size first.\<close>
  from PrepareOitBuffers_first [OF ok s1] obtain wa where
    wa: "PrepareOitBuffers (w1, h1) w = Some wa" "buffers_ok (w_task wa)"
      "m_screenSize (w_task wa) = (w1, h1) \<or> m_screenSize (w_task wa) = (0, 0)"
    by (auto simp: zero)
  have "\<exists>wb. PrepareOitBuffers (w2, h2) wa = Some wb \<and>
          bufferLengths wb = Some (spec_bufferLengths (sint w2) (sint h2))"
  proof (cases "fst (m_screenSize (w_task wa)) <s w2 \<or> snd (m_screenSize (w_task wa)) <s h2")
    case True
    from PrepareOitBuffers_grow [OF wa(2) s2 True fits] show ?thesis by blast
  next
    case False
    with pos wa(3) le have same: "m_screenSize (w_task wa) = (w1, h1)" "w1 = w2" "h1 = h2"
      by (auto simp: signed.le_less)
    have grow1: "fst (m_screenSize (w_task w)) <s w1 \<or> snd (m_screenSize (w_task w)) <s h1"
      using pos same by (simp add: zero)
    from PrepareOitBuffers_grow [OF ok s1 grow1] fits same wa(1) have
      la: "m_counterBar (w_task wa) \<noteq> None"
        "bufferLengths wa = Some (spec_bufferLengths (sint w2) (sint h2))"
      by auto
    from PrepareOitBuffers_keep [of w2 h2 wa] s2 same la show ?thesis
      by (auto simp: word_sle_eq)
  qed
  with wa(1) show "map_option bufferLengths
      (Option.bind (PrepareOitBuffers (w1, h1) w) (PrepareOitBuffers (w2, h2))) =
      Some (Some (spec_bufferLengths (sint w2) (sint h2)))"
    by auto
next
  have ok: "buffers_ok (w_task w)" and zero: "m_screenSize (w_task w) = (0, 0)"
    by (simp_all add: fresh fresh_task_ok) (simp add: HdxOitResolveTask_ctor_def)
  have s2: "0 \<le>s w2" "0 \<le>s h2"
    using s1 le by (simp_all add: word_sle_eq)
  text \<open>The larger size first.\<close>
  have grow2: "fst (m_screenSize (w_task w)) <s w2 \<or> snd (m_screenSize (w_task w)) <s h2"
    using pos by (simp add: zero)
  from PrepareOitBuffers_grow [OF ok s2 grow2 fits] obtain wc where
    wc: "PrepareOitBuffers (w2, h2) w = Some wc" "m_counterBar (w_task wc) \<noteq> None"
      "m_screenSize (w_task wc) = (w2, h2)"
      "bufferLengths wc = Some (spec_bufferLengths (sint w2) (sint h2))"
    by blast
  from PrepareOitBuffers_keep [of w1 h1 wc] s1 le wc obtain wd where
    "PrepareOitBuffers (w1, h1) wc = Some wd"
    "bufferLengths wd = Some (spec_bufferLengths (sint w2) (sint h2))"
    by auto
  with wc(1) show "map_option bufferLengths
      (Option.bind (PrepareOitBuffers (w2, h2) w) (PrepareOitBuffers (w1, h1))) =
      Some (Some (spec_bufferLengths (sint w2) (sint h2)))"
    by simp
qed

text \<open>Sizes (100, 50) and (200, 50), in both orders.\<close>

theorem PrepareOitBuffers_never_shrinks_witness:
  "w_task (world0 True Map.empty) = HdxOitResolveTask_ctor ''/oitResolveTask'' \<and>
   (0 :: cint) \<le>s 100 \<and> (0 :: cint) \<le>s 50 \<and> (100 :: cint) \<le>s 200 \<and> (50 :: cint) \<le>s 50 \<and>
   ((0 :: cint) <s 200 \<or> (0 :: cint) <s 50) \<and>
   sint (200 :: cint) * sint (50 :: cint) * 8 < 2 ^ 31 \<and>
   map_option bufferLengths
     (Option.bind (PrepareOitBuffers (100, 50) (world0 True Map.empty))
        (PrepareOitBuffers (200, 50))) = Some (Some (10001, 80000, 80000, 80000)) \<and>
   map_option bufferLengths
     (Option.bind (PrepareOitBuffers (200, 50) (world0 True Map.empty))
        (PrepareOitBuffers (100, 50))) = Some (Some (10001, 80000, 80000, 80000))"
  using PrepareOitBuffers_never_shrinks [of "world0 True Map.empty" "''/oitResolveTask''" 100 50 200 50]
  by (simp add: world0_def spec_bufferLengths_def word_sle_eq word_sless_alt)

text \<open>
  With \<open>(0, 0)\<close> twice nothing is ever resized: the buffers keep the number of elements
  the registry allocated them with (here 0), and the counter buffer does not have the one
  element the specification computes. With (16384, 16384) twice the lengths are the
  wrapped 32-bit products.
\<close>

theorem PrepareOitBuffers_never_shrinks_counterexample:
  "map_option bufferLengths
     (Option.bind (PrepareOitBuffers (0, 0) (world0 True Map.empty))
        (PrepareOitBuffers (0, 0))) = Some (Some (0, 0, 0, 0)) \<and>
   spec_bufferLengths 0 0 = (1, 0, 0, 0) \<and>
   map_option bufferLengths
     (Option.bind (PrepareOitBuffers (16384, 16384) (world0 True Map.empty))
        (PrepareOitBuffers (16384, 16384))) =
     Some (Some (268435457, - 2147483648, - 2147483648, - 2147483648)) \<and>
   spec_bufferLengths 16384 16384 = (268435457, 2147483648, 2147483648, 2147483648)"
  by (simp add: eval_defs)

subsection \<open>C4: the resize policy\<close>

text \<open>
  Claim C4, as amended. The task's buffers are as \<^verbatim>\<open>_PrepareOitBuffers\<close> leaves them. A
  call with a screen size \<open>(wd, ht)\<close> that is not negative and exceeds the tracked size in
  width or in height returns; after it the tracked size is the requested size
  \<open>(wd, ht)\<close>, the counter buffer has been resized to \<open>wd*ht + 1\<close> and the index, data
  and depth buffers to \<open>wd*ht*8\<close> (32-bit products), and one source that writes
  \<open>(wd, ht)\<close> to \<open>oitScreenSize\<close> in the uniform buffer has been queued.
\<close>

theorem PrepareOitBuffers_resize_policy:
  assumes "buffers_ok (w_task w)" and "0 \<le>s wd" "0 \<le>s ht"
    and "fst (m_screenSize (w_task w)) <s wd \<or> snd (m_screenSize (w_task w)) <s ht"
  shows "\<exists>w'. PrepareOitBuffers (wd, ht) w = Some w' \<and>
     m_screenSize (w_task w') = (wd, ht) \<and>
     numElements w' (m_counterBar (w_task w')) = Some (wd * ht + 1) \<and>
     numElements w' (m_indexBar (w_task w')) = Some (wd * ht * 8) \<and>
     numElements w' (m_dataBar (w_task w')) = Some (wd * ht * 8) \<and>
     numElements w' (m_depthBar (w_task w')) = Some (wd * ht * 8) \<and>
     sources (registry w') =
       sources (registry w) @ [(m_uniformBar (w_task w'), oitScreenSize, VtVec2i wd ht)]"
proof -
  from PrepareOitBuffers_resized [of w "(wd, ht)"] assms obtain w' where
    "PrepareOitBuffers (wd, ht) w = Some w'"
    "w_task w' = (w_task (published w))\<lparr>m_screenSize := (wd, ht)\<rparr>"
    "numElements w' (m_counterBar (w_task w')) = Some (wd * ht + 1)"
    "numElements w' (m_indexBar (w_task w')) = Some (wd * ht * numSamples)"
    "numElements w' (m_dataBar (w_task w')) = Some (wd * ht * numSamples)"
    "numElements w' (m_depthBar (w_task w')) = Some (wd * ht * numSamples)"
    "sources (registry w') =
       sources (registry w) @ [(m_uniformBar (w_task w'), oitScreenSize, VtVec2i wd ht)]"
    by auto
  then show ?thesis by (simp add: numSamples_def)
qed

text \<open>Screen size (100, 50) on a new task.\<close>

theorem PrepareOitBuffers_resize_policy_witness:
  "buffers_ok (w_task (world0 True Map.empty)) \<and> (0 :: cint) \<le>s 100 \<and> (0 :: cint) \<le>s 50 \<and>
   (fst (m_screenSize (w_task (world0 True Map.empty))) <s 100 \<or>
    snd (m_screenSize (w_task (world0 True Map.empty))) <s 50) \<and>
   map_option (\<lambda>w. (m_screenSize (w_task w), numElements w (m_counterBar (w_task w)),
                    numElements w (m_indexBar (w_task w)), sources (registry w)))
     (PrepareOitBuffers (100, 50) (world0 True Map.empty)) =
   Some ((100, 50), Some 5001, Some 40000, [(Some 4, oitScreenSize, VtVec2i 100 50)])"
  using PrepareOitBuffers_resize_policy [of "world0 True Map.empty" 100 50]
  by (simp add: eval_defs buffers_ok_def)

text \<open>
  With (50, 50) tracked, a request for (100, 10) leaves (100, 10) tracked and the buffers
  sized for it, where the component-wise maximum is (100, 50); a request for (100, -1)
  changes nothing.
\<close>

theorem PrepareOitBuffers_resize_policy_counterexample:
  "map_option (\<lambda>w. (m_screenSize (w_task w), bufferLengths w))
     (Option.bind (PrepareOitBuffers (50, 50) (world0 True Map.empty))
        (PrepareOitBuffers (100, 10))) =
     Some ((100, 10), Some (1001, 8000, 8000, 8000)) \<and>
   spec_highWaterMark (100, 10) (50, 50) = (100, 50) \<and>
   spec_bufferLengths 100 50 = (5001, 40000, 40000, 40000) \<and>
   map_option (\<lambda>w. (m_screenSize (w_task w), bufferLengths w))
     (Option.bind (PrepareOitBuffers (50, 50) (world0 True Map.empty))
        (PrepareOitBuffers (100, - 1))) =
     Some ((50, 50), Some (2501, 20000, 20000, 20000)) \<and>
   spec_highWaterMark (100, - 1) (50, 50) = (100, 50)"
  by (simp add: eval_defs spec_highWaterMark_def)

subsection \<open>C5: an unsupported render delegate\<close>

text \<open>
  Claim C5, as amended. The render delegate is not an \<^verbatim>\<open>HdStRenderDelegate\<close> and the task
  has no render pass and no render pass state. Then a \<^verbatim>\<open>Prepare\<close> that sees the request
  flag erases the cleared flag and reports the verification failure, each time it is
  called and not once; an \<^verbatim>\<open>Execute\<close> that sees the request flag erases both flags and
  reports a verification failure of its own; without the request flag either call changes
  nothing. Whatever sequence of \<^verbatim>\<open>Prepare\<close> and \<^verbatim>\<open>Execute\<close> calls and of changes to the
  task context follows, every call returns and the task and the render index stay as they
  were: nothing is ever initialized or allocated.
\<close>

theorem Prepare_unsupported_backend:
  assumes "\<not> renderDelegateIsHdSt (w_renderIndex w)" "m_renderPass (w_task w) = None"
    "m_renderPassState (w_task w) = None"
  shows "Prepare w =
           Some (if w_ctx w oitRequestFlag = None then w
                 else report (TF_VERIFY_FAILED ''OIT Task only works with HdSt'')
                        (ctx_erase oitClearedFlag w)) \<and>
         Execute w =
           Some (if w_ctx w oitRequestFlag = None then w
                 else report (TF_VERIFY_FAILED ''_renderPassState'')
                        (ctx_erase oitClearedFlag (ctx_erase oitRequestFlag w))) \<and>
         (\<forall>cs. \<exists>w'. run cs w = Some w' \<and> w_task w' = w_task w \<and>
                     w_renderIndex w' = w_renderIndex w)"
  using assms
  by (simp add: Prepare_uninitialized Execute_uninitialized run_uninitialized)

text \<open>
  Two frames on a new task with the request flag set: the task and the registry are
  untouched; the request flag is consumed by the first \<^verbatim>\<open>Execute\<close>, so the second frame
  reports nothing.
\<close>

theorem Prepare_unsupported_backend_witness:
  "\<not> renderDelegateIsHdSt (w_renderIndex (world0 False requestCtx)) \<and>
   m_renderPass (w_task (world0 False requestCtx)) = None \<and>
   m_renderPassState (w_task (world0 False requestCtx)) = None \<and>
   map_option (\<lambda>w. (w_task w, w_renderIndex w, w_ctx w oitRequestFlag, w_diagnostics w))
     (run [CallPrepare, CallExecute, CallPrepare, CallExecute] (world0 False requestCtx)) =
   Some (HdxOitResolveTask_ctor ''/oitResolveTask'',
         \<lparr>renderDelegateIsHdSt = False, resourceRegistry = registry0\<rparr>,
         None,
         [TF_VERIFY_FAILED ''OIT Task only works with HdSt'', TF_VERIFY_FAILED ''_renderPassState''])"
  using Prepare_unsupported_backend [of "world0 False requestCtx"]
  by (simp add: eval_defs eval_prepare_defs eval_execute_defs)

text \<open>
  With the request flag set, a second \<^verbatim>\<open>Prepare\<close> reports the failure a second time, and
  an \<^verbatim>\<open>Execute\<close> after \<^verbatim>\<open>Prepare\<close> removes the request flag from the task context and
  reports a failure too: neither is a call that changes no state.
\<close>

theorem Prepare_unsupported_backend_counterexample:
  "map_option w_diagnostics (run [CallPrepare, CallPrepare] (world0 False requestCtx)) =
     Some [TF_VERIFY_FAILED ''OIT Task only works with HdSt'',
           TF_VERIFY_FAILED ''OIT Task only works with HdSt''] \<and>
   map_option (\<lambda>w. (w_ctx w oitRequestFlag, w_diagnostics w))
     (run [CallPrepare] (world0 False requestCtx)) =
     Some (Some (VtBool True), [TF_VERIFY_FAILED ''OIT Task only works with HdSt'']) \<and>
   map_option (\<lambda>w. (w_ctx w oitRequestFlag, w_diagnostics w))
     (run [CallPrepare, CallExecute] (world0 False requestCtx)) =
     Some (None, [TF_VERIFY_FAILED ''OIT Task only works with HdSt'',
                  TF_VERIFY_FAILED ''_renderPassState''])"
  by (simp add: eval_defs eval_prepare_defs eval_execute_defs)

subsection \<open>C6: a negative screen size\<close>

text \<open>
  Claim C6. A call of \<^verbatim>\<open>_PrepareOitBuffers\<close> whose requested width or height is negative
  returns after reporting one coding error: the task (its buffer pointers and its tracked
  screen size), the task context and the render index with its registry (the buffers,
  their lengths and the queued uniform sources) are as before the call.
\<close>

theorem PrepareOitBuffers_negative_size:
  assumes "wd <s 0 \<or> ht <s 0"
  shows "\<exists>w'. PrepareOitBuffers (wd, ht) w = Some w' \<and>
     w_task w' = w_task w \<and> w_ctx w' = w_ctx w \<and> w_renderIndex w' = w_renderIndex w \<and>
     bufferLengths w' = bufferLengths w \<and>
     w_diagnostics w' = w_diagnostics w @
       [TF_CODING_ERROR (''Invalid screen size for OIT resolve task '' @ taskId (w_task w))]"
proof -
  have "\<not> (0 \<le>s fst (wd, ht) \<and> 0 \<le>s snd (wd, ht))"
    using assms by (auto simp: word_sle_eq word_sless_alt)
  then have "PrepareOitBuffers (wd, ht) w =
      Some (report (TF_CODING_ERROR
              (''Invalid screen size for OIT resolve task '' @ taskId (w_task w))) w)"
    (is "_ = Some ?w'")
    by (rule PrepareOitBuffers_invalid)
  moreover have "bufferLengths ?w' = bufferLengths w"
    by (rule bufferLengths_cong) (simp_all add: report_def registry_def)
  ultimately show ?thesis
    by (simp add: report_def)
qed

text \<open>Screen size (-1, 5) on a new task: one coding error, and still no buffers.\<close>

theorem PrepareOitBuffers_negative_size_witness:
  "((- 1 :: cint) <s 0 \<or> (5 :: cint) <s 0) \<and>
   map_option w_diagnostics (PrepareOitBuffers (- 1, 5) (world0 True Map.empty)) =
     Some [TF_CODING_ERROR ''Invalid screen size for OIT resolve task /oitResolveTask''] \<and>
   map_option w_task (PrepareOitBuffers (- 1, 5) (world0 True Map.empty)) =
     Some (HdxOitResolveTask_ctor ''/oitResolveTask'') \<and>
   map_option bufferLengths (PrepareOitBuffers (- 1, 5) (world0 True Map.empty)) = Some None"
  using PrepareOitBuffers_negative_size [of "- 1" 5 "world0 True Map.empty"]
  by (auto simp: world0_def HdxOitResolveTask_ctor_def bufferLengths_def numElements_def)

subsection \<open>C7: the render pass state made by the first \<^verbatim>\<open>Prepare\<close>\<close>

text \<open>
  Claim C7. A \<^verbatim>\<open>Prepare\<close> that sees the request flag while the task has no render pass
  yet, on an \<^verbatim>\<open>HdSt\<close> render delegate, returns (the buffers being as
  \<^verbatim>\<open>_PrepareOitBuffers\<close> leaves them and the first AOV binding, if any, having its
  render buffer) and leaves the task with a render pass, a shader and a render pass state
  that has the depth test off, the depth mask (depth write) off, the colour mask RGBA,
  blending on, and for colour and for alpha the blend operation Add with source factor
  One and destination factor OneMinusSrcAlpha.
\<close>

theorem Prepare_configures_render_pass_state:
  assumes req: "w_ctx w oitRequestFlag \<noteq> None"
    and first: "m_renderPass (w_task w) = None"
    and hdSt: "renderDelegateIsHdSt (w_renderIndex w)"
    and ok: "buffers_ok (w_task w)"
    and aov: "aovBuffersResolved (w_ctx w)"
  shows "\<exists>w' rps. Prepare w = Some w' \<and>
     m_renderPass (w_task w') \<noteq> None \<and> m_renderPassShader (w_task w') \<noteq> None \<and>
     m_renderPassState (w_task w') = Some rps \<and>
     \<not> depthTestEnabled rps \<and> \<not> depthMaskEnabled rps \<and> colorMasks rps = [ColorMaskRGBA] \<and>
     blendEnabled rps \<and>
     blendColorOp rps = HdBlendOpAdd \<and> blendColorSrcFactor rps = HdBlendFactorOne \<and>
     blendColorDstFactor rps = HdBlendFactorOneMinusSrcAlpha \<and>
     blendAlphaOp rps = HdBlendOpAdd \<and> blendAlphaSrcFactor rps = HdBlendFactorOne \<and>
     blendAlphaDstFactor rps = HdBlendFactorOneMinusSrcAlpha"
proof -
  let ?w0 = "initRenderPass (ctx_erase oitClearedFlag w)"
  have prep: "Prepare w = prepareFrame ?w0"
    using req first hdSt by (rule Prepare_first)
  from initRenderPass_state [of "ctx_erase oitClearedFlag w"] obtain rps where
    rps: "m_renderPassState (w_task ?w0) = Some rps"
      "\<not> depthTestEnabled rps" "\<not> depthMaskEnabled rps" "colorMasks rps = [ColorMaskRGBA]"
      "blendEnabled rps"
      "blendColorOp rps = HdBlendOpAdd" "blendColorSrcFactor rps = HdBlendFactorOne"
      "blendColorDstFactor rps = HdBlendFactorOneMinusSrcAlpha"
      "blendAlphaOp rps = HdBlendOpAdd" "blendAlphaSrcFactor rps = HdBlendFactorOne"
      "blendAlphaDstFactor rps = HdBlendFactorOneMinusSrcAlpha"
    by blast
  have ok0: "buffers_ok (w_task ?w0)" and aov0: "aovBuffersResolved (w_ctx ?w0)"
    using ok aov by (simp_all add: initRenderPass_task ctx_erase_frame)
  from prepareFrame_result [OF rps(1) ok0 aov0] obtain w' where
    w': "prepareFrame ?w0 = Some w'"
      "m_renderPass (w_task w') = m_renderPass (w_task ?w0)"
      "m_renderPassShader (w_task w') = m_renderPassShader (w_task ?w0)"
      "m_renderPassState (w_task w') =
         Some (SetAovBindings (map stripClearValue (ctxAovBindings (w_ctx ?w0))) rps)"
    by blast
  show ?thesis
    using prep w' rps(2-) by (simp add: initRenderPass_task SetAovBindings_def)
qed

text \<open>A new task, the request flag set and one AOV binding of 100 by 50.\<close>

theorem Prepare_configures_render_pass_state_witness:
  "w_ctx (world0 True (aovCtx 100 50)) oitRequestFlag \<noteq> None \<and>
   m_renderPass (w_task (world0 True (aovCtx 100 50))) = None \<and>
   renderDelegateIsHdSt (w_renderIndex (world0 True (aovCtx 100 50))) \<and>
   buffers_ok (w_task (world0 True (aovCtx 100 50))) \<and>
   aovBuffersResolved (w_ctx (world0 True (aovCtx 100 50))) \<and>
   map_option (\<lambda>w. m_renderPassState (w_task w)) (Prepare (world0 True (aovCtx 100 50))) =
     Some (Some \<lparr>depthTestEnabled = False, depthMaskEnabled = False,
                 colorMasks = [ColorMaskRGBA], blendEnabled = True,
                 blendColorOp = HdBlendOpAdd, blendColorSrcFactor = HdBlendFactorOne,
                 blendColorDstFactor = HdBlendFactorOneMinusSrcAlpha,
                 blendAlphaOp = HdBlendOpAdd, blendAlphaSrcFactor = HdBlendFactorOne,
                 blendAlphaDstFactor = HdBlendFactorOneMinusSrcAlpha,
                 rps_renderPassShader = Some ''oitResolveImageShader.glslfx'',
                 rps_aovBindings =
                   [AovBinding (otherToken ''color'')
                      (Some \<lparr>rb_width = 100, rb_height = 50\<rparr>) VtEmpty]\<rparr>)"
  using Prepare_configures_render_pass_state [of "world0 True (aovCtx 100 50)"]
  by (simp add: eval_defs eval_prepare_defs buffers_ok_def aovBuffersResolved_def)

subsection \<open>C8: the buffers are published to the task context\<close>

text \<open>
  Claim C8, as amended. The task's buffers are as \<^verbatim>\<open>_PrepareOitBuffers\<close> leaves them.
  Every call with a screen size that is not negative returns, and after it the task
  context holds, under \<open>oitCounterBufferBar\<close>, \<open>oitIndexBufferBar\<close>,
  \<open>oitDataBufferBar\<close>, \<open>oitDepthBufferBar\<close> and \<open>oitUniformBar\<close>, the task's
  pointers to its five buffers, none of them null.
\<close>

theorem PrepareOitBuffers_publishes:
  assumes "buffers_ok (w_task w)" and "0 \<le>s wd" "0 \<le>s ht"
  shows "\<exists>w'. PrepareOitBuffers (wd, ht) w = Some w' \<and>
     m_counterBar (w_task w') \<noteq> None \<and> m_indexBar (w_task w') \<noteq> None \<and>
     m_dataBar (w_task w') \<noteq> None \<and> m_depthBar (w_task w') \<noteq> None \<and>
     m_uniformBar (w_task w') \<noteq> None \<and>
     w_ctx w' oitCounterBufferBar = Some (VtBar (m_counterBar (w_task w'))) \<and>
     w_ctx w' oitIndexBufferBar = Some (VtBar (m_indexBar (w_task w'))) \<and>
     w_ctx w' oitDataBufferBar = Some (VtBar (m_dataBar (w_task w'))) \<and>
     w_ctx w' oitDepthBufferBar = Some (VtBar (m_depthBar (w_task w'))) \<and>
     w_ctx w' oitUniformBar = Some (VtBar (m_uniformBar (w_task w')))"
proof -
  let ?p = "published w"
  note ok = published_ok [OF assms(1)]
  from ok obtain c i d z where
    bars: "m_counterBar (w_task ?p) = Some c" "m_indexBar (w_task ?p) = Some i"
      "m_dataBar (w_task ?p) = Some d" "m_depthBar (w_task ?p) = Some z"
      "m_uniformBar (w_task ?p) \<noteq> None"
    by (rule buffers_okE)
  show ?thesis
  proof (cases "fst (m_screenSize (w_task w)) <s wd \<or> snd (m_screenSize (w_task w)) <s ht")
    case True
    from PrepareOitBuffers_resized [of w "(wd, ht)"] assms True obtain w' where
      w': "PrepareOitBuffers (wd, ht) w = Some w'"
        "w_task w' = (w_task ?p)\<lparr>m_screenSize := (wd, ht)\<rparr>" "w_ctx w' = w_ctx ?p"
      by auto
    show ?thesis using w' bars by (simp add: published_ctx)
  next
    case False
    then have "PrepareOitBuffers (wd, ht) w = Some ?p"
      using assms(2,3) by (simp add: PrepareOitBuffers_valid)
    then show ?thesis using bars by (simp add: published_ctx)
  qed
qed

text \<open>Screen size (100, 50) on a new task and an empty task context.\<close>

theorem PrepareOitBuffers_publishes_witness:
  "buffers_ok (w_task (world0 True Map.empty)) \<and> (0 :: cint) \<le>s 100 \<and> (0 :: cint) \<le>s 50 \<and>
   map_option (\<lambda>w. map (w_ctx w) [oitCounterBufferBar, oitIndexBufferBar, oitDataBufferBar,
                                  oitDepthBufferBar, oitUniformBar])
     (PrepareOitBuffers (100, 50) (world0 True Map.empty)) =
   Some [Some (VtBar (Some 0)), Some (VtBar (Some 1)), Some (VtBar (Some 2)),
         Some (VtBar (Some 3)), Some (VtBar (Some 4))]"
  using PrepareOitBuffers_publishes [of "world0 True Map.empty" 100 50]
  by (simp add: eval_defs buffers_ok_def)

text \<open>
  A call with the screen size (-1, 5) returns before the buffers are allocated or
  published: the task context, empty before the call, has none of the five keys after it.
\<close>

theorem PrepareOitBuffers_publishes_counterexample:
  "map_option (\<lambda>w. map (w_ctx w) [oitCounterBufferBar, oitIndexBufferBar, oitDataBufferBar,
                                  oitDepthBufferBar, oitUniformBar])
     (PrepareOitBuffers (- 1, 5) (world0 True Map.empty)) =
   Some [None, None, None, None, None]"
  by (simp add: eval_defs)

subsection \<open>C9: the fallback screen size and its warning\<close>

text \<open>
  Claim C9, as amended. \<^verbatim>\<open>Prepare\<close> sees the request flag and no AOV binding, on a task
  that has its render pass or can make it (the render delegate is an
  \<^verbatim>\<open>HdStRenderDelegate\<close>), with the render pass members and the buffers as the task
  itself leaves them. Then the screen size it computes and passes to
  \<^verbatim>\<open>_PrepareOitBuffers\<close> is (2048, 2048), and the warning is issued exactly when the
  tracked width differs from 2048 on entry. A \<^verbatim>\<open>Prepare\<close> that follows directly warns
  again exactly when the tracked size on entry to the first one had a width above 2048 and
  a height of at least 2048; in particular not after the first fallback of a new task.
\<close>

theorem Prepare_fallback_screen_size:
  assumes req: "w_ctx w oitRequestFlag \<noteq> None"
    and noAov: "ctxAovBindings (w_ctx w) = []"
    and init: "renderDelegateIsHdSt (w_renderIndex w) \<or> m_renderPass (w_task w) \<noteq> None"
    and pass: "pass_ok (w_task w)" and ok: "buffers_ok (w_task w)"
  shows "\<exists>w1 w' w''.
     PrepareAovBindings (beforeAovBindings w) = Some w1 \<and>
     computeScreenSize w1 =
       Some ((2048, 2048),
             if fst (m_screenSize (w_task w)) \<noteq> 2048
             then report (TF_WARN ''Invalid AOVs for Oit Resolve Task'') w1 else w1) \<and>
     Prepare w =
       PrepareOitBuffers (2048, 2048)
         (if fst (m_screenSize (w_task w)) \<noteq> 2048
          then report (TF_WARN ''Invalid AOVs for Oit Resolve Task'') w1 else w1) \<and>
     Prepare w = Some w' \<and>
     w_diagnostics w' = w_diagnostics w @
       (if fst (m_screenSize (w_task w)) \<noteq> 2048
        then [TF_WARN ''Invalid AOVs for Oit Resolve Task''] else []) \<and>
     Prepare w' = Some w'' \<and>
     w_diagnostics w'' = w_diagnostics w' @
       (if 2048 <s fst (m_screenSize (w_task w)) \<and> 2048 \<le>s snd (m_screenSize (w_task w))
        then [TF_WARN ''Invalid AOVs for Oit Resolve Task''] else [])"
proof -
  let ?warn = "TF_WARN ''Invalid AOVs for Oit Resolve Task''"
  let ?t = "m_screenSize (w_task w)"
  from init have "m_renderPass (w_task w) \<noteq> None \<or> renderDelegateIsHdSt (w_renderIndex w)"
    by blast
  from Prepare_no_aov [OF req noAov this pass ok] obtain w1 w' where
    one: "PrepareAovBindings (beforeAovBindings w) = Some w1"
      "computeScreenSize w1 =
         Some ((2048, 2048), if fst ?t \<noteq> 2048 then report ?warn w1 else w1)"
      "Prepare w = PrepareOitBuffers (2048, 2048) (if fst ?t \<noteq> 2048 then report ?warn w1 else w1)"
      "Prepare w = Some w'"
      "w_diagnostics w' = w_diagnostics w @ (if fst ?t \<noteq> 2048 then [?warn] else [])"
    and size': "m_screenSize (w_task w') =
        (if fst ?t <s 2048 \<or> snd ?t <s 2048 then (2048, 2048) else ?t)"
    and again: "w_ctx w' oitRequestFlag \<noteq> None" "ctxAovBindings (w_ctx w') = []"
      "m_renderPass (w_task w') \<noteq> None" "pass_ok (w_task w')" "buffers_ok (w_task w')"
    by blast
  from Prepare_no_aov [OF again(1,2) disjI1 [OF again(3)] again(4,5)] obtain w'' where
    two: "Prepare w' = Some w''"
      "w_diagnostics w'' = w_diagnostics w' @
         (if fst (m_screenSize (w_task w')) \<noteq> 2048 then [?warn] else [])"
    by blast
  have "fst (m_screenSize (w_task w')) \<noteq> 2048 \<longleftrightarrow> 2048 <s fst ?t \<and> 2048 \<le>s snd ?t"
    unfolding size' by (auto simp: signed.not_less signed.less_le)
  with two(2) have "w_diagnostics w'' = w_diagnostics w' @
      (if 2048 <s fst ?t \<and> 2048 \<le>s snd ?t then [?warn] else [])"
    by simp
  with one two(1) show ?thesis by blast
qed

text \<open>
  A new task, the request flag set and no AOV binding: (2048, 2048) and one warning after
  the first \<^verbatim>\<open>Prepare\<close>, and still one warning after the second.
\<close>

theorem Prepare_fallback_screen_size_witness:
  "w_ctx (world0 True requestCtx) oitRequestFlag \<noteq> None \<and>
   ctxAovBindings (w_ctx (world0 True requestCtx)) = [] \<and>
   (renderDelegateIsHdSt (w_renderIndex (world0 True requestCtx)) \<or>
    m_renderPass (w_task (world0 True requestCtx)) \<noteq> None) \<and>
   pass_ok (w_task (world0 True requestCtx)) \<and> buffers_ok (w_task (world0 True requestCtx)) \<and>
   map_option (\<lambda>w. (m_screenSize (w_task w), w_diagnostics w))
     (run [CallPrepare] (world0 True requestCtx)) =
     Some ((2048, 2048), [TF_WARN ''Invalid AOVs for Oit Resolve Task'']) \<and>
   map_option (\<lambda>w. (m_screenSize (w_task w), w_diagnostics w))
     (run [CallPrepare, CallPrepare] (world0 True requestCtx)) =
     Some ((2048, 2048), [TF_WARN ''Invalid AOVs for Oit Resolve Task''])"
  using Prepare_fallback_screen_size [of "world0 True requestCtx"]
  by (simp add: eval_defs eval_prepare_defs pass_ok_def buffers_ok_def)

text \<open>
  After a frame with an AOV binding of 4096 by 4096, two frames without AOV bindings: both
  issue the warning, since the tracked width stays 4096.
\<close>

theorem Prepare_fallback_screen_size_counterexample:
  "map_option (\<lambda>w. (m_screenSize (w_task w), w_diagnostics w))
     (run [CallPrepare, CallOther (\<lambda>c. requestCtx), CallPrepare, CallPrepare]
        (world0 True (aovCtx 4096 4096))) =
   Some ((4096, 4096),
         [TF_WARN ''Invalid AOVs for Oit Resolve Task'',
          TF_WARN ''Invalid AOVs for Oit Resolve Task''])"
  by (simp add: eval_defs eval_prepare_defs)

subsection \<open>C10: an aborted \<^verbatim>\<open>Execute\<close> has consumed the flags\<close>

text \<open>
  Claim C10. When \<^verbatim>\<open>Execute\<close> sees the request flag and then stops before the draw,
  because the render pass state or the shader is missing or because one of the four OIT
  buffer references is absent from the task context, it returns with one diagnostic
  reported and no draw issued, and the request flag and the cleared flag are erased all the
  same: a \<^verbatim>\<open>Prepare\<close> or an \<^verbatim>\<open>Execute\<close> that follows without a new request does nothing.
\<close>

theorem Execute_abort_erases_flags:
  assumes req: "w_ctx w oitRequestFlag \<noteq> None"
    and abort: "m_renderPassState (w_task w) = None \<or> m_renderPassShader (w_task w) = None \<or>
      GetBar (w_ctx w) oitCounterBufferBar = None \<or> GetBar (w_ctx w) oitIndexBufferBar = None \<or>
      GetBar (w_ctx w) oitDataBufferBar = None \<or> GetBar (w_ctx w) oitDepthBufferBar = None"
  shows "\<exists>w'. Execute w = Some w' \<and>
     w_ctx w' oitRequestFlag = None \<and> w_ctx w' oitClearedFlag = None \<and>
     m_renderPass (w_task w') = m_renderPass (w_task w) \<and>
     (\<exists>d. w_diagnostics w' = w_diagnostics w @ [d]) \<and>
     Prepare w' = Some w' \<and> Execute w' = Some w'"
proof -
  let ?w1 = "ctx_erase oitClearedFlag (ctx_erase oitRequestFlag w)"
  have "\<exists>d t. Execute w = Some (report d (?w1\<lparr>w_task := t\<rparr>)) \<and>
          m_renderPass t = m_renderPass (w_task w)"
  proof (cases "m_renderPassState (w_task w)")
    case None
    have "Execute w = Some (report (TF_VERIFY_FAILED ''_renderPassState'') (?w1\<lparr>w_task := w_task w\<rparr>))"
      unfolding Execute_requested [OF req] using None by (simp add: ctx_erase_def)
    then show ?thesis by blast
  next
    case rps: (Some rps)
    show ?thesis
    proof (cases "m_renderPassShader (w_task w)")
      case None
      have "Execute w =
          Some (report (TF_VERIFY_FAILED ''_renderPassShader'') (?w1\<lparr>w_task := w_task w\<rparr>))"
        unfolding Execute_requested [OF req] using rps None by (simp add: ctx_erase_def)
      then show ?thesis by blast
    next
      case sh: (Some sh)
      with rps abort have "AddOitBufferBindings (w_ctx ?w1) sh = (False, sh)"
        by (intro AddOitBufferBindings_absent) (simp add: GetBar_erased)
      then have "Execute w =
          Some (report (TF_CODING_ERROR ''No OIT buffers allocated but needed by OIT resolve task'')
                  (?w1\<lparr>w_task := (w_task w)\<lparr>m_renderPassShader := Some sh\<rparr>\<rparr>))"
        unfolding Execute_requested [OF req] using rps sh by (simp add: Let_def)
      moreover have "m_renderPass ((w_task w)\<lparr>m_renderPassShader := Some sh\<rparr>) =
          m_renderPass (w_task w)"
        by simp
      ultimately show ?thesis by blast
    qed
  qed
  then obtain d t where
    ex: "Execute w = Some (report d (?w1\<lparr>w_task := t\<rparr>))"
      and t: "m_renderPass t = m_renderPass (w_task w)"
    by blast
  let ?w' = "report d (?w1\<lparr>w_task := t\<rparr>)"
  have flags: "w_ctx ?w' oitRequestFlag = None" "w_ctx ?w' oitClearedFlag = None"
    by (simp_all add: report_def ctx_erase_def)
  have "Prepare ?w' = Some ?w'" "Execute ?w' = Some ?w'"
    using flags(1) by (rule Prepare_no_request, rule Execute_no_request)
  moreover have "w_diagnostics ?w' = w_diagnostics w @ [d]" "m_renderPass (w_task ?w') = m_renderPass (w_task w)"
    using t by (simp_all add: report_def ctx_erase_def)
  ultimately show ?thesis
    using ex flags by blast
qed

text \<open>
  A task with its render pass made, both flags set and no buffer in the task context: a
  coding error, no draw, and both flags gone.
\<close>

theorem Execute_abort_erases_flags_witness:
  "w_ctx (initRenderPass (world0 True [oitRequestFlag \<mapsto> VtBool True, oitClearedFlag \<mapsto> VtBool True]))
     oitRequestFlag \<noteq> None \<and>
   GetBar (w_ctx (initRenderPass
       (world0 True [oitRequestFlag \<mapsto> VtBool True, oitClearedFlag \<mapsto> VtBool True])))
     oitCounterBufferBar = None \<and>
   map_option (\<lambda>w. (w_ctx w oitRequestFlag, w_ctx w oitClearedFlag, w_diagnostics w,
                    map_option rp_draws (m_renderPass (w_task w))))
     (Execute (initRenderPass
        (world0 True [oitRequestFlag \<mapsto> VtBool True, oitClearedFlag \<mapsto> VtBool True]))) =
   Some (None, None,
         [TF_CODING_ERROR ''No OIT buffers allocated but needed by OIT resolve task''],
         Some [])"
  using Execute_abort_erases_flags
    [of "initRenderPass
           (world0 True [oitRequestFlag \<mapsto> VtBool True, oitClearedFlag \<mapsto> VtBool True])"]
  by (simp add: eval_defs eval_prepare_defs eval_execute_defs)

end
